theory Spec2Isabelle
  imports Main "HOL-Library.Monad_Syntax"
begin

section \<open>Distributed Ford-Fulkerson (project.cpp): data model\<close>

text \<open>
  The program keeps its state in global variables of one MPI process (a rank); the
  functions below take the globals of one rank as a record and return the updated record.
  A C++ vector read or written out of range is undefined behaviour: every function returns
  an \<open>option\<close>, and \<open>None\<close> stands for such an access (in \<open>calc_max_flow\<close> also for
  an \<open>MPI_Recv\<close> that never returns). Each function is one atomic
  step of one thread; the interleaving of threads is not part of the model.

  A C++ \<open>int\<close> has 32 bits. The fields that hold one (label values, capacities, flows)
  are of type \<open>int\<close> here, and every sum, difference, negation and \<open>abs\<close> that the
  program computes on them is reduced to the 32-bit range by \<open>int32\<close>: signed overflow
  is undefined in C++, and the model takes the two's-complement result that the compiled
  program gives. The counters \<open>working_threads\<close> and \<open>pass\<close> and the rank numbers, which
  rise by one per thread, per pass and per process, are not reduced. Debug output (the
  \<open>DEBUG\<close> macro) and the thread id that is passed along only for it are left out.
\<close>

type_synonym global_id = nat
type_synonym local_id = nat

text \<open>
  Modelled from the spec: the type \<open>local_id\<close> is declared in data-structures.h, which is
  not among the sources. The program uses \<open>(local_id)-1\<close> as "no local vertex"; for a
  64-bit unsigned index that is \<open>2^64 - 1\<close>.
\<close>

definition NO_LOCAL :: local_id where
  "NO_LOCAL = 2 ^ 64 - 1"

text \<open>\<open>numeric_limits<int>::max()\<close>, the label of the source.\<close>

definition INT_MAX :: int where
  "INT_MAX = 2147483647"

definition INT_MIN :: int where
  "INT_MIN = - 2147483648"

text \<open>The 32-bit \<open>int\<close> that a result \<open>x\<close> of integer arithmetic is stored as.\<close>

definition int32 :: "int \<Rightarrow> int" where
  "int32 x = (x + 2147483648) mod 4294967296 - 2147483648"

text \<open>
  Modelled from the spec: the structs \<open>in_edge\<close>, \<open>out_edge\<close>, \<open>label\<close>, \<open>vertex\<close> and
  \<open>edge_entry\<close> are declared in data-structures.h; their fields and the order of the
  fields are taken from the uses and the brace initialisers in project.cpp. An outgoing
  edge has the three fields of an incoming edge, then \<open>capacity\<close> and \<open>flow\<close>. The field
  \<open>value\<close> of a label is \<open>lvalue\<close> here and the field \<open>id\<close> of a vertex is \<open>vid\<close>.
\<close>

record in_edge =
  dest_node_id :: global_id
  rank_location :: int
  vert_index :: local_id

record out_edge = in_edge +
  capacity :: int
  flow :: int

record label =
  lvalue :: int
  prev_node :: global_id
  prev_rank_loc :: int
  prev_vert_index :: local_id

record vertex =
  vid :: global_id
  out_edges :: "out_edge list"
  in_edges :: "in_edge list"

record edge_entry =
  vertex_index :: local_id
  is_outgoing :: bool
  edge_index :: nat

record message_data =
  senders_node :: global_id
  receivers_node :: global_id
  msg_value :: int
  msg_pass :: int

datatype message_tags =
    SET_TO_LABEL
  | COMPUTE_FROM_LABEL
  | SINK_FOUND
  | UPDATE_FLOW
  | SOURCE_FOUND
  | TOTAL_FLOW
  | TOKEN_WHITE
  | TOKEN_RED
  | CHECK_TERMINATION

text \<open>
  Modelled from the spec: \<open>EMPTY_LABEL\<close> is defined in data-structures.h. An empty label has
  value 0; its back-pointer fields are written before they are read.
\<close>

definition EMPTY_LABEL :: label where
  "EMPTY_LABEL = \<lparr>lvalue = 0, prev_node = 0, prev_rank_loc = 0, prev_vert_index = 0\<rparr>"

text \<open>
  The globals of one rank. \<open>edge_queue\<close> is the \<open>EdgeQueue\<close> (modelled from the spec: the
  class is in data-structures.h; it is a FIFO, so a list with the head first). Two fields
  record effects: \<open>sent\<close> lists every \<open>MPI_Ssend\<close> in order (destination rank, tag,
  payload), \<open>errors\<close> lists the \<open>ERROR\<close> diagnostics written to stderr (the format
  strings). \<open>debug_mode\<close> is not a variable of the program: it says whether the program
  was compiled with the macro \<open>DEBUG_MODE\<close> defined, and no function changes it.
\<close>

datatype payload = No_data | Msg message_data | Int_data int

record rank_state =
  mpi_rank :: int
  mpi_size :: int
  source_id :: global_id
  sink_id :: global_id
  working_threads :: int
  my_color :: message_tags
  have_token :: bool
  token_color :: message_tags
  queue_is_empty :: bool
  vertices :: "vertex list"
  labels :: "label list"
  global_to_local :: "global_id \<rightharpoonup> local_id"
  sink_found :: bool
  step_3_tid :: int
  pass :: int
  algorithm_complete :: bool
  edge_queue :: "edge_entry list"
  sent :: "(int \<times> message_tags \<times> payload) list"
  errors :: "string list"
  debug_mode :: bool

definition nth_opt :: "'a list \<Rightarrow> nat \<Rightarrow> 'a option" where
  "nth_opt xs i = (if i < length xs then Some (xs ! i) else None)"

definition lookup_global_id :: "rank_state \<Rightarrow> global_id \<Rightarrow> local_id" where
  "lookup_global_id s g = (case global_to_local s g of None \<Rightarrow> NO_LOCAL | Some i \<Rightarrow> i)"

definition MPI_Ssend :: "int \<Rightarrow> message_tags \<Rightarrow> payload \<Rightarrow> rank_state \<Rightarrow> rank_state" where
  "MPI_Ssend dest tag data s = s\<lparr>sent := sent s @ [(dest, tag, data)]\<rparr>"

text \<open>
  The macro \<open>ERROR\<close> prints its diagnostic under \<open>#ifdef DEBUG_MODE\<close> and is an empty
  statement otherwise.
\<close>

definition ERROR :: "string \<Rightarrow> rank_state \<Rightarrow> rank_state" where
  "ERROR diag s = (if debug_mode s then s\<lparr>errors := errors s @ [diag]\<rparr> else s)"

section \<open>insert_edges and set_label\<close>

text \<open>
  The two \<open>continue\<close> tests of \<open>insert_edges\<close> on one edge of the vertex \<open>vert_idx\<close>:
  the far end is on this rank and has a label, or the far end is the vertex we came from.
  The label of the far end is read only when the edge stays on this rank.
\<close>

definition came_from :: "rank_state \<Rightarrow> local_id \<Rightarrow> 'a in_edge_scheme \<Rightarrow> bool option" where
  "came_from s vert_idx edge =
     do { l \<leftarrow> nth_opt (labels s) vert_idx;
          Some (dest_node_id edge = prev_node l) }"

definition edge_skipped :: "rank_state \<Rightarrow> local_id \<Rightarrow> 'a in_edge_scheme \<Rightarrow> bool option" where
  "edge_skipped s vert_idx edge =
     (if rank_location edge = mpi_rank s then
        do { far \<leftarrow> nth_opt (labels s) (vert_index edge);
             if lvalue far \<noteq> 0 then Some True else came_from s vert_idx edge }
      else came_from s vert_idx edge)"

text \<open>One of the two \<open>for\<close> loops of \<open>insert_edges\<close>, from edge index \<open>i\<close> on.\<close>

fun fragment_loop ::
  "rank_state \<Rightarrow> local_id \<Rightarrow> bool \<Rightarrow> nat \<Rightarrow> 'a in_edge_scheme list \<Rightarrow> edge_entry list option" where
  "fragment_loop s vert_idx outgoing i [] = Some []"
| "fragment_loop s vert_idx outgoing i (edge # rest) =
     do { skip \<leftarrow> edge_skipped s vert_idx edge;
          more \<leftarrow> fragment_loop s vert_idx outgoing (Suc i) rest;
          Some (if skip then more
                else \<lparr>vertex_index = vert_idx, is_outgoing = outgoing, edge_index = i\<rparr> # more) }"

definition insert_edges :: "local_id \<Rightarrow> rank_state \<Rightarrow> rank_state option" where
  "insert_edges vert_idx s =
     do { v \<leftarrow> nth_opt (vertices s) vert_idx;
          outs \<leftarrow> fragment_loop s vert_idx True 0 (out_edges v);
          ins \<leftarrow> fragment_loop s vert_idx False 0 (in_edges v);
          Some (s\<lparr>edge_queue := edge_queue s @ outs @ ins\<rparr>) }"

text \<open>
  \<open>set_label\<close>: the compare-and-swap of the label value from 0, then the back-pointers,
  then either the answer "this is the sink" or the edges of the vertex.
\<close>

definition set_label ::
  "global_id \<Rightarrow> int \<Rightarrow> local_id \<Rightarrow> local_id \<Rightarrow> int \<Rightarrow> rank_state \<Rightarrow> (bool \<times> rank_state) option" where
  "set_label prev_node' prev_rank prev_idx curr_idx val s =
     do { old \<leftarrow> nth_opt (labels s) curr_idx;
          if lvalue old = 0 then
            do { let s1 = s\<lparr>labels := (labels s)[curr_idx :=
                        \<lparr>lvalue = val, prev_node = prev_node', prev_rank_loc = prev_rank,
                         prev_vert_index = prev_idx\<rparr>]\<rparr>;
                 v \<leftarrow> nth_opt (vertices s1) curr_idx;
                 if vid v = sink_id s1 then Some (True, s1)
                 else do { s2 \<leftarrow> insert_edges curr_idx s1; Some (False, s2) } }
          else Some (False, s) }"

section \<open>Step 2: the worker threads\<close>

text \<open>
  \<open>handle_out_edge\<close> and \<open>handle_in_edge\<close> return the local index of the sink when the
  call labelled it, and \<open>(local_id)-1\<close> otherwise.
\<close>

definition handle_out_edge :: "edge_entry \<Rightarrow> rank_state \<Rightarrow> (local_id \<times> rank_state) option" where
  "handle_out_edge entry s =
     do { let from_id = vertex_index entry;
          v \<leftarrow> nth_opt (vertices s) from_id;
          edge \<leftarrow> nth_opt (out_edges v) (edge_index entry);
          let flow_diff = int32 (capacity edge - flow edge);
          if flow_diff \<le> 0 then Some (NO_LOCAL, s)
          else
            do { l \<leftarrow> nth_opt (labels s) from_id;
                 let label_val = min (int32 \<bar>lvalue l\<bar>) flow_diff;
                 if rank_location edge = mpi_rank s then
                   do { (found, s1) \<leftarrow> set_label (vid v) (mpi_rank s) from_id (vert_index edge) label_val s;
                        Some (if found then vert_index edge else NO_LOCAL, s1) }
                 else
                   do { let msg = \<lparr>senders_node = vid v, receivers_node = dest_node_id edge,
                                   msg_value = label_val, msg_pass = pass s\<rparr>;
                        let s1 = (if rank_location edge < mpi_rank s then s\<lparr>my_color := TOKEN_RED\<rparr> else s);
                        Some (NO_LOCAL, MPI_Ssend (rank_location edge) SET_TO_LABEL (Msg msg) s1) } } }"

text \<open>The flow of the first outgoing edge that satisfies \<open>P\<close>, or \<open>dflt\<close> when there is none
  (the search loops that end in \<open>break\<close>).\<close>

definition first_flow :: "(out_edge \<Rightarrow> bool) \<Rightarrow> int \<Rightarrow> out_edge list \<Rightarrow> int" where
  "first_flow P dflt es = (case find P es of None \<Rightarrow> dflt | Some e \<Rightarrow> flow e)"

definition handle_in_edge :: "edge_entry \<Rightarrow> rank_state \<Rightarrow> (local_id \<times> rank_state) option" where
  "handle_in_edge entry s =
     do { let to_id = vertex_index entry;
          v \<leftarrow> nth_opt (vertices s) to_id;
          rev_edge \<leftarrow> nth_opt (in_edges v) (edge_index entry);
          if rank_location rev_edge = mpi_rank s then
            do { let from_id = vert_index rev_edge;
                 fv \<leftarrow> nth_opt (vertices s) from_id;
                 let curr_flow = first_flow (\<lambda>e. vert_index e = to_id) (- 1) (out_edges fv);
                 if curr_flow \<le> 0 then Some (NO_LOCAL, s)
                 else
                   do { l \<leftarrow> nth_opt (labels s) to_id;
                        let label_val = int32 (- min (int32 \<bar>lvalue l\<bar>) curr_flow);
                        (found, s1) \<leftarrow> set_label (vid v) (mpi_rank s) to_id from_id label_val s;
                        if found then Some (from_id, ERROR ''outgoing edge from sink!'' s1)
                        else Some (NO_LOCAL, s1) } }
          else
            do { l \<leftarrow> nth_opt (labels s) to_id;
                 let msg = \<lparr>senders_node = vid v, receivers_node = dest_node_id rev_edge,
                            msg_value = lvalue l, msg_pass = pass s\<rparr>;
                 let s1 = (if rank_location rev_edge < mpi_rank s then s\<lparr>my_color := TOKEN_RED\<rparr> else s);
                 Some (NO_LOCAL, MPI_Ssend (rank_location rev_edge) COMPUTE_FROM_LABEL (Msg msg) s1) } }"

text \<open>\<open>__sync_val_compare_and_swap(&step_3_tid, -1, tid)\<close> with the \<open>ERROR\<close> of the callers
  that hold the sink.\<close>

definition claim_step_3 :: "int \<Rightarrow> rank_state \<Rightarrow> rank_state" where
  "claim_step_3 tid s =
     (if step_3_tid s = - 1 then s\<lparr>step_3_tid := tid\<rparr>
      else ERROR ''Thread %d set step_3_tid, but we have bt_idx!'' s)"

text \<open>
  The body of the inner \<open>while\<close> of a worker, run when \<open>edge_queue.pop\<close> found nothing:
  the rank notes that its queue is empty and passes the token on if it may.
\<close>

definition worker_idle :: "rank_state \<Rightarrow> rank_state" where
  "worker_idle s =
     (let s1 = s\<lparr>queue_is_empty := True\<rparr> in
      if have_token s1 \<and> working_threads s1 = 0 \<and> \<not> sink_found s1 then
        let s2 = (if my_color s1 = TOKEN_RED then s1\<lparr>token_color := TOKEN_RED\<rparr> else s1);
            s3 = s2\<lparr>have_token := False\<rparr>;
            s4 = MPI_Ssend ((mpi_rank s3 + 1) mod mpi_size s3) (token_color s3) No_data s3
        in s4\<lparr>my_color := TOKEN_WHITE\<rparr>
      else s1)"

text \<open>
  The rest of one iteration of a worker's outer loop, from the moment the inner loop has
  ended with \<open>entry\<close> popped (or with \<open>sink_found\<close> set): the result is the thread's
  \<open>bt_idx\<close>. The early return on \<open>algorithm_complete\<close> is the caller's.
\<close>

definition worker_process :: "int \<Rightarrow> edge_entry \<Rightarrow> rank_state \<Rightarrow> (local_id \<times> rank_state) option" where
  "worker_process tid entry s =
     (let s1 = s\<lparr>working_threads := working_threads s + 1, queue_is_empty := False\<rparr> in
      if sink_found s1 then Some (NO_LOCAL, s1\<lparr>working_threads := working_threads s1 - 1\<rparr>)
      else
        do { (bt, s2) \<leftarrow> (if is_outgoing entry then handle_out_edge entry s1
                          else handle_in_edge entry s1);
             if bt \<noteq> NO_LOCAL then
               do { let s3 = claim_step_3 tid s2;
                    let s4 = MPI_Ssend (mpi_rank s3) SINK_FOUND No_data s3;
                    Some (bt, s4\<lparr>sink_found := True, working_threads := working_threads s4 - 1\<rparr>) }
             else Some (bt, s2\<lparr>working_threads := working_threads s2 - 1\<rparr>) })"

section \<open>Step 1 and the message loop of step 2 (thread 0)\<close>

definition step_1 :: "rank_state \<Rightarrow> rank_state option" where
  "step_1 s =
     (let s1 = s\<lparr>labels := replicate (length (labels s)) EMPTY_LABEL,
                  working_threads := 0,
                  my_color := TOKEN_WHITE,
                  have_token := (mpi_rank s = 0),
                  token_color := TOKEN_WHITE,
                  queue_is_empty := False,
                  sink_found := False,
                  step_3_tid := - 1,
                  edge_queue := []\<rparr>;
          i = lookup_global_id s1 (source_id s1)
      in if i \<noteq> NO_LOCAL then
           do { (found, s2) \<leftarrow> set_label (source_id s1) (mpi_rank s1) i i INT_MAX s1; Some s2 }
         else Some s1)"

text \<open>What a thread does after one pass through the loop body: go on, or \<open>return NULL\<close>.\<close>

datatype thread_ctl = Continue | Returned

text \<open>\<open>int empty = queue_is_empty ? 0 : 1\<close>, the value a rank gives to the all-reduce.\<close>

definition empty_flag :: "rank_state \<Rightarrow> int" where
  "empty_flag s = (if queue_is_empty s then 0 else 1)"

text \<open>\<open>__sync_fetch_and_sub(&working_threads, 1)\<close>.\<close>

definition sub_working :: "rank_state \<Rightarrow> rank_state" where
  "sub_working s = s\<lparr>working_threads := working_threads s - 1\<rparr>"

text \<open>
  The cases \<open>TOKEN_WHITE\<close>, \<open>TOKEN_RED\<close> and \<open>CHECK_TERMINATION\<close> of the switch.
  \<open>MPI_Allreduce\<close> with \<open>MPI_SUM\<close> returns the sum over all ranks; \<open>others\<close> is the sum
  of what the other ranks give.
\<close>

definition receive_token :: "message_tags \<Rightarrow> int \<Rightarrow> rank_state \<Rightarrow> thread_ctl \<times> rank_state" where
  "receive_token tag others s =
     (let s1 = s\<lparr>token_color := tag\<rparr> in
      if mpi_rank s1 = 0 then
        if token_color s1 = TOKEN_WHITE then
          let s2 = fold (\<lambda>i. MPI_Ssend (int i) CHECK_TERMINATION No_data) [1..<nat (mpi_size s1)] s1;
              result = empty_flag s2 + others
          in if result = 0 then (Returned, (sub_working s2)\<lparr>algorithm_complete := True\<rparr>)
             else (Continue, sub_working (s2\<lparr>have_token := True\<rparr>))
        else (Continue, sub_working (s1\<lparr>token_color := TOKEN_WHITE, have_token := True\<rparr>))
      else (Continue, sub_working (s1\<lparr>have_token := True\<rparr>)))"

definition check_termination :: "int \<Rightarrow> rank_state \<Rightarrow> thread_ctl \<times> rank_state" where
  "check_termination others s =
     (let result = empty_flag s + others in
      if result = 0 then (Returned, (sub_working s)\<lparr>algorithm_complete := True\<rparr>)
      else (Continue, sub_working s))"

text \<open>
  One pass through the \<open>while (!sink_found)\<close> loop of thread 0 in step 2: the message
  with tag \<open>tag\<close> and data \<open>msg\<close> has arrived from rank \<open>src\<close>. The local variable
  \<open>bt_idx\<close> goes in and out. The flushing of white tokens on a single rank
  (\<open>MPI_Iprobe\<close>) takes messages off the network and touches no variable.
\<close>

definition router_step ::
  "int \<Rightarrow> int \<Rightarrow> message_tags \<Rightarrow> message_data \<Rightarrow> int \<Rightarrow> local_id \<Rightarrow> rank_state
     \<Rightarrow> (thread_ctl \<times> local_id \<times> rank_state) option" where
  "router_step tid src tag msg others bt_idx s =
     (let s0 = s\<lparr>working_threads := working_threads s + 1\<rparr> in
      case tag of
        SET_TO_LABEL \<Rightarrow>
          (let vert_idx = lookup_global_id s0 (receivers_node msg) in
           if vert_idx = NO_LOCAL then
             Some (Continue, bt_idx, sub_working (ERROR ''SET_TO_LABEL sent to wrong rank'' s0))
           else if msg_pass msg \<noteq> pass s0 then
             Some (Continue, bt_idx, sub_working (ERROR ''***** Got old message! *****'' s0))
           else
             do { (found, s1) \<leftarrow> set_label (senders_node msg) src NO_LOCAL vert_idx (msg_value msg) s0;
                  if found then
                    Some (Continue, vert_idx, sub_working ((claim_step_3 tid s1)\<lparr>sink_found := True\<rparr>))
                  else Some (Continue, bt_idx, sub_working s1) })
      | COMPUTE_FROM_LABEL \<Rightarrow>
          (let vert_idx = lookup_global_id s0 (receivers_node msg) in
           if vert_idx = NO_LOCAL then
             Some (Continue, bt_idx, sub_working (ERROR ''COMPUTE_FROM_LABEL sent to wrong rank'' s0))
           else if msg_pass msg \<noteq> pass s0 then
             Some (Continue, bt_idx, sub_working (ERROR ''***** Got old message! *****'' s0))
           else
             do { v \<leftarrow> nth_opt (vertices s0) vert_idx;
                  let curr_flow = first_flow (\<lambda>e. dest_node_id e = senders_node msg) 0 (out_edges v);
                  if curr_flow \<le> 0 then Some (Continue, bt_idx, sub_working s0)
                  else
                    do { (found, s1) \<leftarrow> set_label (senders_node msg) src NO_LOCAL vert_idx
                                          (int32 (- min (int32 \<bar>msg_value msg\<bar>) curr_flow)) s0;
                         if found then
                           Some (Continue, vert_idx,
                                 sub_working ((claim_step_3 tid (ERROR ''outgoing edge from sink!'' s1))
                                                \<lparr>sink_found := True\<rparr>))
                         else Some (Continue, bt_idx, sub_working s1) } })
      | SINK_FOUND \<Rightarrow>
          (if mpi_size s0 > 1 then
             Some (Continue, bt_idx,
                   sub_working ((if step_3_tid s0 = - 1 then s0\<lparr>step_3_tid := tid\<rparr> else s0)
                                  \<lparr>sink_found := True\<rparr>))
           else Some (Continue, bt_idx, sub_working (s0\<lparr>sink_found := True\<rparr>)))
      | TOKEN_WHITE \<Rightarrow> (case receive_token tag others s0 of (ctl, s1) \<Rightarrow> Some (ctl, bt_idx, s1))
      | TOKEN_RED \<Rightarrow> (case receive_token tag others s0 of (ctl, s1) \<Rightarrow> Some (ctl, bt_idx, s1))
      | CHECK_TERMINATION \<Rightarrow>
          (case check_termination others s0 of (ctl, s1) \<Rightarrow> Some (ctl, bt_idx, s1))
      | _ \<Rightarrow> Some (Continue, bt_idx, sub_working (ERROR ''got invalid tag in step 2: %s'' s0)))"

section \<open>Step 3: backtracking\<close>

text \<open>The variables of step 3 that are local to the thread that runs it.\<close>

record bt_state =
  bt_idx :: local_id
  sink_value :: int
  wait_for_source_found :: bool
  step_3_done :: bool

text \<open>
  The update loops of step 3 (\<open>flow += sink_value\<close>, \<open>flow -= sink_value\<close>) run over
  all outgoing edges of one vertex and change every edge whose \<open>dest_node_id\<close> is
  \<open>dest\<close>; they have no \<open>break\<close>.
\<close>

definition add_flow :: "global_id \<Rightarrow> int \<Rightarrow> out_edge list \<Rightarrow> out_edge list" where
  "add_flow dest d es =
     map (\<lambda>e. if dest_node_id e = dest then e\<lparr>flow := int32 (flow e + d)\<rparr> else e) es"

definition update_out_edges ::
  "local_id \<Rightarrow> (out_edge list \<Rightarrow> out_edge list) \<Rightarrow> rank_state \<Rightarrow> rank_state option" where
  "update_out_edges i f s =
     do { v \<leftarrow> nth_opt (vertices s) i;
          Some (s\<lparr>vertices := (vertices s)[i := v\<lparr>out_edges := f (out_edges v)\<rparr>]\<rparr>) }"

text \<open>
  One pass through the \<open>while (!step_3_done)\<close> loop with \<open>bt_idx\<close> a local vertex. (The
  model reads \<open>vertices[bt_idx]\<close> once at the start of the first update loop; the source
  reads it at every edge.)
\<close>

definition bt_local :: "bt_state \<Rightarrow> rank_state \<Rightarrow> (bt_state \<times> rank_state) option" where
  "bt_local b s =
     do { l \<leftarrow> nth_opt (labels s) (bt_idx b);
          s1 \<leftarrow> (if lvalue l > 0 \<and> prev_rank_loc l = mpi_rank s then
                   do { bv \<leftarrow> nth_opt (vertices s) (bt_idx b);
                        update_out_edges (prev_vert_index l) (add_flow (vid bv) (sink_value b)) s }
                 else if lvalue l < 0 then
                   update_out_edges (bt_idx b) (add_flow (prev_node l) (- sink_value b)) s
                 else Some s);
          if prev_rank_loc l \<noteq> mpi_rank s1 then
            do { bv \<leftarrow> nth_opt (vertices s1) (bt_idx b);
                 let msg = \<lparr>senders_node = vid bv, receivers_node = prev_node l,
                            msg_value = sink_value b, msg_pass = pass s1\<rparr>;
                 Some (b\<lparr>bt_idx := NO_LOCAL\<rparr>, MPI_Ssend (prev_rank_loc l) UPDATE_FLOW (Msg msg) s1) }
          else if bt_idx b = prev_vert_index l \<and> prev_node l = source_id s1 then
            Some (b\<lparr>wait_for_source_found := (mpi_size s1 > 1), step_3_done := True\<rparr>, s1)
          else Some (b\<lparr>bt_idx := prev_vert_index l\<rparr>, s1) }"

text \<open>One pass through the loop with \<open>bt_idx = (local_id)-1\<close>: a message has arrived.\<close>

definition bt_recv ::
  "message_tags \<Rightarrow> message_data \<Rightarrow> bt_state \<Rightarrow> rank_state \<Rightarrow> (bt_state \<times> rank_state) option" where
  "bt_recv tag msg b s =
     (case tag of
        SOURCE_FOUND \<Rightarrow> Some (b\<lparr>wait_for_source_found := False, step_3_done := True\<rparr>, s)
      | UPDATE_FLOW \<Rightarrow>
          do { let vert_idx = lookup_global_id s (receivers_node msg);
               s1 \<leftarrow> update_out_edges vert_idx (add_flow (senders_node msg) (msg_value msg)) s;
               Some (b\<lparr>sink_value := msg_value msg, bt_idx := vert_idx\<rparr>, s1) }
      | SET_TO_LABEL \<Rightarrow> Some (b, s)
      | COMPUTE_FROM_LABEL \<Rightarrow> Some (b, s)
      | TOKEN_WHITE \<Rightarrow> Some (b, s)
      | TOKEN_RED \<Rightarrow> Some (b, s)
      | _ \<Rightarrow> Some (b, ERROR ''got invalid message during step 3 with tag %s'' s))"

text \<open>
  At most \<open>n\<close> passes through the loop for as long as they need no message: the run stops
  when \<open>step_3_done\<close> is set, when the next pass would wait in \<open>MPI_Recv\<close>, or after
  \<open>n\<close> passes.
\<close>

fun backtrack :: "nat \<Rightarrow> bt_state \<Rightarrow> rank_state \<Rightarrow> (bt_state \<times> rank_state) option" where
  "backtrack 0 b s = Some (b, s)"
| "backtrack (Suc n) b s =
     (if step_3_done b \<or> bt_idx b = NO_LOCAL then Some (b, s)
      else do { (b', s') \<leftarrow> bt_local b s; backtrack n b' s' })"

text \<open>
  Step 3 up to the loop, for the thread \<open>tid\<close> with \<open>bt_idx = bt\<close> that finds
  \<open>step_3_tid = tid\<close>: the value of the sink's label is read and, with more than one
  rank, \<open>SINK_FOUND\<close> goes round the ring (the waits and the flushing receive and discard
  messages and touch no variable).
\<close>

definition step_3_begin :: "local_id \<Rightarrow> rank_state \<Rightarrow> (bt_state \<times> rank_state) option" where
  "step_3_begin bt s =
     do { sv \<leftarrow> (if bt \<noteq> NO_LOCAL then do { l \<leftarrow> nth_opt (labels s) bt; Some (lvalue l) }
                 else Some 0);
          let next = (mpi_rank s + 1) mod mpi_size s;
          let s1 = (if mpi_size s > 1 then
                      MPI_Ssend next SINK_FOUND No_data (MPI_Ssend next SINK_FOUND No_data s)
                    else s);
          Some (\<lparr>bt_idx = bt, sink_value = sv, wait_for_source_found = False, step_3_done = False\<rparr>, s1) }"

text \<open>Step 3 after the loop: \<open>SOURCE_FOUND\<close> to the next rank, the barrier, \<open>pass++\<close>.\<close>

definition step_3_end :: "rank_state \<Rightarrow> rank_state" where
  "step_3_end s =
     (let s1 = (if mpi_size s > 1 then
                  MPI_Ssend ((mpi_rank s + 1) mod mpi_size s) SOURCE_FOUND No_data s
                else s)
      in s1\<lparr>pass := pass s1 + 1\<rparr>)"

section \<open>After the threads have ended: calc_max_flow and the output of main\<close>

text \<open>The local \<open>total_flow\<close> of \<open>calc_max_flow\<close> before any message: \<open>-1\<close> on a rank
  that does not hold the source.\<close>

definition source_flow :: "rank_state \<Rightarrow> int option" where
  "source_flow s =
     (let src_idx = lookup_global_id s (source_id s) in
      if src_idx \<noteq> NO_LOCAL then
        do { v \<leftarrow> nth_opt (vertices s) src_idx;
             Some (fold (\<lambda>e total_flow. int32 (total_flow + flow e)) (out_edges v) 0) }
      else Some (- 1))"

text \<open>
  The end of \<open>calc_max_flow\<close>. \<open>inbox\<close> lists the \<open>TOTAL_FLOW\<close> values sent to this rank
  in the order of arrival; \<open>MPI_Recv\<close> takes the first and waits for ever if there is none.
\<close>

definition calc_max_flow :: "int list \<Rightarrow> rank_state \<Rightarrow> (int \<times> rank_state) option" where
  "calc_max_flow inbox s =
     do { total_flow \<leftarrow> source_flow s;
          if mpi_rank s = 0 then
            if total_flow = - 1 then
              (case inbox of [] \<Rightarrow> None | m # rest \<Rightarrow> Some (m, s))
            else Some (total_flow, s)
          else if total_flow \<noteq> - 1 then
            Some (- 1, MPI_Ssend 0 TOTAL_FLOW (Int_data total_flow) s)
          else Some (total_flow, s) }"

text \<open>\<open>cout << n\<close> for an \<open>int\<close>: the decimal digits, most significant first, after a
  minus sign if the number is negative.\<close>

definition digit_char :: "nat \<Rightarrow> char" where
  "digit_char d = ''0123456789'' ! d"

fun decimal :: "nat \<Rightarrow> string" where
  "decimal n =
     (if n div 10 = 0 then [digit_char n] else decimal (n div 10) @ [digit_char (n mod 10)])"

declare decimal.simps [simp del]

definition decimal_of_int :: "int \<Rightarrow> string" where
  "decimal_of_int i = (if 0 \<le> i then decimal (nat i) else CHR ''-'' # decimal (nat (- i)))"

text \<open>
  The lines that \<open>main\<close> prints after \<open>calc_max_flow\<close> has returned \<open>max_flow\<close> (the
  line \<open>Runtime:\<close> shows a measured time and is left out).
\<close>

definition main_output :: "rank_state \<Rightarrow> int \<Rightarrow> string list" where
  "main_output s max_flow =
     (if mpi_rank s = 0 then [''Max flow: '' @ decimal_of_int max_flow] else [])"

definition finish_rank :: "int list \<Rightarrow> rank_state \<Rightarrow> (string list \<times> rank_state) option" where
  "finish_rank inbox s =
     do { (max_flow, s') \<leftarrow> calc_max_flow inbox s; Some (main_output s' max_flow, s') }"

text \<open>
  All ranks together. The \<open>TOTAL_FLOW\<close> values that reach rank 0 are those that the other
  ranks send in their \<open>calc_max_flow\<close>.
\<close>

definition total_flow_sent :: "rank_state \<Rightarrow> int list" where
  "total_flow_sent s =
     (case calc_max_flow [] s of
        None \<Rightarrow> []
      | Some (r, s') \<Rightarrow>
          concat (map (\<lambda>(dest, tag, d).
                         case d of Int_data n \<Rightarrow> if dest = 0 \<and> tag = TOTAL_FLOW then [n] else []
                                 | _ \<Rightarrow> [])
                      (drop (length (sent s)) (sent s'))))"

definition finish_all :: "rank_state list \<Rightarrow> (string list \<times> rank_state) option list" where
  "finish_all rs =
     map (\<lambda>s. finish_rank (if mpi_rank s = 0
                              then concat (map total_flow_sent (filter (\<lambda>r. mpi_rank r \<noteq> 0) rs))
                              else []) s) rs"

section \<open>The termination check on all ranks\<close>

text \<open>
  Rank 0 has received a white token and the other ranks receive its \<open>CHECK_TERMINATION\<close>;
  every rank gives its \<open>empty_flag\<close> to the all-reduce. \<open>rs ! i\<close> is rank \<open>i\<close>.
\<close>

definition no_msg :: message_data where
  "no_msg = \<lparr>senders_node = 0, receivers_node = 0, msg_value = 0, msg_pass = 0\<rparr>"

definition termination_round ::
  "rank_state list \<Rightarrow> (thread_ctl \<times> local_id \<times> rank_state) option list" where
  "termination_round rs =
     map (\<lambda>s. router_step 0 (if mpi_rank s = 0 then mpi_size s - 1 else 0)
                  (if mpi_rank s = 0 then TOKEN_WHITE else CHECK_TERMINATION) no_msg
                  (sum_list (map empty_flag rs) - empty_flag s) NO_LOCAL s) rs"

section \<open>A run on a single rank with one worker thread\<close>

text \<open>
  Thread 1, the only worker, pops and processes entries until the sink is found or the
  queue is empty (at most \<open>n\<close> entries).
\<close>

fun worker_loop :: "nat \<Rightarrow> int \<Rightarrow> rank_state \<Rightarrow> (local_id \<times> rank_state) option" where
  "worker_loop 0 tid s = Some (NO_LOCAL, s)"
| "worker_loop (Suc n) tid s =
     (if sink_found s then Some (NO_LOCAL, s)
      else case edge_queue s of
             [] \<Rightarrow> Some (NO_LOCAL, s)
           | entry # rest \<Rightarrow>
               do { (bt, s1) \<leftarrow> worker_process tid entry (s\<lparr>edge_queue := rest\<rparr>);
                    if bt \<noteq> NO_LOCAL then Some (bt, s1) else worker_loop n tid s1 })"

text \<open>
  One pass of \<open>run_algorithm\<close> with \<open>mpi_size = 1\<close> and two threads. Thread 0 runs step 1;
  thread 1 works through the queue. If it finds the sink, thread 0 receives its
  \<open>SINK_FOUND\<close> and thread 1 runs step 3. If the queue runs empty, thread 1 sends the token
  to its own rank and thread 0 receives it. \<open>None\<close> also when \<open>n\<close> passes through a loop
  were not enough.
\<close>

definition single_rank_pass :: "nat \<Rightarrow> rank_state \<Rightarrow> rank_state option" where
  "single_rank_pass n s =
     do { s1 \<leftarrow> step_1 s;
          (bt, s2) \<leftarrow> worker_loop n 1 s1;
          if bt \<noteq> NO_LOCAL then
            do { (ctl, bt0, s3) \<leftarrow> router_step 0 (mpi_rank s2) SINK_FOUND no_msg 0 NO_LOCAL s2;
                 (b, s4) \<leftarrow> step_3_begin bt s3;
                 (b', s5) \<leftarrow> backtrack n b s4;
                 if step_3_done b' then Some (step_3_end s5) else None }
          else if edge_queue s2 = [] then
            do { let s3 = worker_idle s2;
                 (ctl, bt0, s4) \<leftarrow> router_step 0 (mpi_rank s3) (token_color s3) no_msg 0 NO_LOCAL s3;
                 Some s4 }
          else None }"

fun single_rank_run :: "nat \<Rightarrow> nat \<Rightarrow> rank_state \<Rightarrow> rank_state option" where
  "single_rank_run 0 n s = (if algorithm_complete s then Some s else None)"
| "single_rank_run (Suc k) n s =
     (if algorithm_complete s then Some s
      else do { s' \<leftarrow> single_rank_pass n s; single_rank_run k n s' })"

section \<open>Example inputs\<close>

text \<open>
  The globals as \<open>main\<close> leaves them before \<open>calc_max_flow\<close>: the source is vertex 0, the
  sink the vertex with the largest id, \<open>pass = 1\<close>, no labels. The program is compiled as
  the file stands, without \<open>DEBUG_MODE\<close>.
\<close>

definition start_state ::
  "int \<Rightarrow> int \<Rightarrow> nat \<Rightarrow> vertex list \<Rightarrow> (global_id \<rightharpoonup> local_id) \<Rightarrow> rank_state" where
  "start_state rank nranks graph_node_count vs g2l =
     \<lparr>mpi_rank = rank, mpi_size = nranks, source_id = 0, sink_id = graph_node_count - 1,
      working_threads = 0, my_color = TOKEN_WHITE, have_token = False,
      token_color = TOKEN_WHITE, queue_is_empty = False, vertices = vs,
      labels = replicate (length vs) EMPTY_LABEL, global_to_local = g2l,
      sink_found = False, step_3_tid = - 1, pass = 1, algorithm_complete = False,
      edge_queue = [], sent = [], errors = [], debug_mode = False\<rparr>"

definition mk_out :: "global_id \<Rightarrow> int \<Rightarrow> local_id \<Rightarrow> int \<Rightarrow> int \<Rightarrow> out_edge" where
  "mk_out d r i c f = \<lparr>dest_node_id = d, rank_location = r, vert_index = i, capacity = c, flow = f\<rparr>"

definition mk_in :: "global_id \<Rightarrow> int \<Rightarrow> local_id \<Rightarrow> in_edge" where
  "mk_in d r i = \<lparr>dest_node_id = d, rank_location = r, vert_index = i\<rparr>"

text \<open>
  One rank, the input file \<open>2 2 / 0 c 1 3 /\<close> (an empty last line): a loop at the source
  with capacity \<open>c\<close> and the edge 0 to 1 with capacity 3.
\<close>

definition loop_graph :: "int \<Rightarrow> rank_state" where
  "loop_graph c =
     start_state 0 1 2
       [\<lparr>vid = 0, out_edges = [mk_out 0 0 0 c 0, mk_out 1 0 1 3 0], in_edges = [mk_in 0 0 0]\<rparr>,
        \<lparr>vid = 1, out_edges = [], in_edges = [mk_in 0 0 0]\<rparr>]
       [0 \<mapsto> 0, 1 \<mapsto> 1]"

text \<open>One rank, the input file \<open>2 2 / 1 5 1 3 /\<close>: two edges from 0 to 1.\<close>

definition parallel_graph :: rank_state where
  "parallel_graph =
     start_state 0 1 2
       [\<lparr>vid = 0, out_edges = [mk_out 1 0 1 5 0, mk_out 1 0 1 3 0], in_edges = []\<rparr>,
        \<lparr>vid = 1, out_edges = [], in_edges = [mk_in 0 0 0, mk_in 0 0 0]\<rparr>]
       [0 \<mapsto> 0, 1 \<mapsto> 1]"

text \<open>
  Two ranks, the diamond 0 to 1 (3), 0 to 2 (2), 1 to 3 (2), 2 to 3 (3): rank 0 holds the
  vertices 0 and 1, rank 1 the vertices 2 and 3.
\<close>

definition diamond_rank0 :: rank_state where
  "diamond_rank0 =
     start_state 0 2 4
       [\<lparr>vid = 0, out_edges = [mk_out 1 0 1 3 0, mk_out 2 1 NO_LOCAL 2 0], in_edges = []\<rparr>,
        \<lparr>vid = 1, out_edges = [mk_out 3 1 NO_LOCAL 2 0], in_edges = [mk_in 0 0 0]\<rparr>]
       [0 \<mapsto> 0, 1 \<mapsto> 1]"

definition diamond_rank1 :: rank_state where
  "diamond_rank1 =
     start_state 1 2 4
       [\<lparr>vid = 2, out_edges = [mk_out 3 1 1 3 0], in_edges = [mk_in 0 0 NO_LOCAL]\<rparr>,
        \<lparr>vid = 3, out_edges = [], in_edges = [mk_in 1 0 NO_LOCAL, mk_in 2 1 0]\<rparr>]
       [2 \<mapsto> 0, 3 \<mapsto> 1]"

text \<open>Rank 0 of the diamond after step 1 of the first pass.\<close>

definition diamond_rank0_labelled :: rank_state where
  "diamond_rank0_labelled =
     diamond_rank0\<lparr>labels := [\<lparr>lvalue = INT_MAX, prev_node = 0, prev_rank_loc = 0,
                                prev_vert_index = 0\<rparr>, EMPTY_LABEL],
                     have_token := True,
                     edge_queue := [\<lparr>vertex_index = 0, is_outgoing = True, edge_index = 0\<rparr>,
                                    \<lparr>vertex_index = 0, is_outgoing = True, edge_index = 1\<rparr>]\<rparr>"

text \<open>The single rank with the loop at the source after step 1 of the first pass.\<close>

definition loop_graph_labelled :: "int \<Rightarrow> rank_state" where
  "loop_graph_labelled c =
     (loop_graph c)\<lparr>labels := [\<lparr>lvalue = INT_MAX, prev_node = 0, prev_rank_loc = 0,
                                 prev_vert_index = 0\<rparr>, EMPTY_LABEL],
                     have_token := True,
                     edge_queue := [\<lparr>vertex_index = 0, is_outgoing = True, edge_index = 1\<rparr>]\<rparr>"

text \<open>
  One rank, the input file \<open>6 7 / 1 1 2 1 / 3 1 4 1 / 3 1 / 5 1 / 5 1 /\<close>, all capacities
  1. The first pass sends one unit along 0, 1, 3, 5; the second pass has to take it back
  from the edge 1 to 3.
\<close>

definition cancel_graph :: rank_state where
  "cancel_graph =
     start_state 0 1 6
       [\<lparr>vid = 0, out_edges = [mk_out 1 0 1 1 0, mk_out 2 0 2 1 0], in_edges = []\<rparr>,
        \<lparr>vid = 1, out_edges = [mk_out 3 0 3 1 0, mk_out 4 0 4 1 0], in_edges = [mk_in 0 0 0]\<rparr>,
        \<lparr>vid = 2, out_edges = [mk_out 3 0 3 1 0], in_edges = [mk_in 0 0 0]\<rparr>,
        \<lparr>vid = 3, out_edges = [mk_out 5 0 5 1 0], in_edges = [mk_in 1 0 1, mk_in 2 0 2]\<rparr>,
        \<lparr>vid = 4, out_edges = [mk_out 5 0 5 1 0], in_edges = [mk_in 1 0 1]\<rparr>,
        \<lparr>vid = 5, out_edges = [], in_edges = [mk_in 3 0 3, mk_in 4 0 4]\<rparr>]
       [0 \<mapsto> 0, 1 \<mapsto> 1, 2 \<mapsto> 2, 3 \<mapsto> 3, 4 \<mapsto> 4, 5 \<mapsto> 5]"

text \<open>
  The same rank in the second pass, when the worker has popped the entry for the incoming
  edge of vertex 3 from vertex 1: the vertices 0, 2 and 3 are labelled.
\<close>

definition cancel_mid :: rank_state where
  "cancel_mid =
     cancel_graph
       \<lparr>vertices :=
          [\<lparr>vid = 0, out_edges = [mk_out 1 0 1 1 1, mk_out 2 0 2 1 0], in_edges = []\<rparr>,
           \<lparr>vid = 1, out_edges = [mk_out 3 0 3 1 1, mk_out 4 0 4 1 0], in_edges = [mk_in 0 0 0]\<rparr>,
           \<lparr>vid = 2, out_edges = [mk_out 3 0 3 1 0], in_edges = [mk_in 0 0 0]\<rparr>,
           \<lparr>vid = 3, out_edges = [mk_out 5 0 5 1 1], in_edges = [mk_in 1 0 1, mk_in 2 0 2]\<rparr>,
           \<lparr>vid = 4, out_edges = [mk_out 5 0 5 1 0], in_edges = [mk_in 1 0 1]\<rparr>,
           \<lparr>vid = 5, out_edges = [], in_edges = [mk_in 3 0 3, mk_in 4 0 4]\<rparr>],
        labels :=
          [\<lparr>lvalue = INT_MAX, prev_node = 0, prev_rank_loc = 0, prev_vert_index = 0\<rparr>,
           EMPTY_LABEL,
           \<lparr>lvalue = 1, prev_node = 0, prev_rank_loc = 0, prev_vert_index = 0\<rparr>,
           \<lparr>lvalue = 1, prev_node = 2, prev_rank_loc = 0, prev_vert_index = 2\<rparr>,
           EMPTY_LABEL, EMPTY_LABEL],
        have_token := True, pass := 2, sent := [(0, SINK_FOUND, No_data)]\<rparr>"

text \<open>
  Two ranks, the input file \<open>6 7 / 1 1 2 1 / 4 1 3 1 / 3 1 / 5 1 / 5 1 /\<close> with the
  vertices 0, 1, 2 on rank 0 and 3, 4, 5 on rank 1. Rank 0 at the start of the second
  pass, when one unit flows along 0, 1, 3, 5; then the same rank when its worker has
  found its queue empty: vertex 2 is labelled and \<open>SET_TO_LABEL\<close> for vertex 3 is sent.
\<close>

definition split_rank0 :: rank_state where
  "split_rank0 =
     (start_state 0 2 6
       [\<lparr>vid = 0, out_edges = [mk_out 1 0 1 1 1, mk_out 2 0 2 1 0], in_edges = []\<rparr>,
        \<lparr>vid = 1, out_edges = [mk_out 4 1 NO_LOCAL 1 0, mk_out 3 1 NO_LOCAL 1 1],
          in_edges = [mk_in 0 0 0]\<rparr>,
        \<lparr>vid = 2, out_edges = [mk_out 3 1 NO_LOCAL 1 0], in_edges = [mk_in 0 0 0]\<rparr>]
       [0 \<mapsto> 0, 1 \<mapsto> 1, 2 \<mapsto> 2])\<lparr>pass := 2\<rparr>"

definition split_rank0_mid :: rank_state where
  "split_rank0_mid =
     split_rank0
       \<lparr>labels := [\<lparr>lvalue = INT_MAX, prev_node = 0, prev_rank_loc = 0, prev_vert_index = 0\<rparr>,
                   EMPTY_LABEL,
                   \<lparr>lvalue = 1, prev_node = 0, prev_rank_loc = 0, prev_vert_index = 0\<rparr>],
        have_token := True,
        sent := [(1, SET_TO_LABEL,
                  Msg \<lparr>senders_node = 2, receivers_node = 3, msg_value = 1, msg_pass = 2\<rparr>)]\<rparr>"

text \<open>
  Rank 1 of the diamond after step 1 and the message \<open>SET_TO_LABEL\<close> from rank 0 for
  vertex 2 with the value 2.
\<close>

definition diamond_rank1_labelled :: rank_state where
  "diamond_rank1_labelled =
     diamond_rank1\<lparr>labels := [\<lparr>lvalue = 2, prev_node = 0, prev_rank_loc = 0,
                                prev_vert_index = NO_LOCAL\<rparr>, EMPTY_LABEL],
                     edge_queue := [\<lparr>vertex_index = 0, is_outgoing = True, edge_index = 0\<rparr>]\<rparr>"

text \<open>
  Rank 1 of the diamond after step 1 and a white token from rank 0: it holds the token and
  has nothing in its queue.
\<close>

definition diamond_rank1_token :: rank_state where
  "diamond_rank1_token = diamond_rank1\<lparr>have_token := True\<rparr>"

text \<open>An \<open>UPDATE_FLOW\<close> message for vertex 0 from vertex 2 that names pass 7.\<close>

definition stale_update :: message_data where
  "stale_update = \<lparr>senders_node = 2, receivers_node = 0, msg_value = 2, msg_pass = 7\<rparr>"

text \<open>The two ranks of the diamond with empty queues, rank 0 having passed the token on.\<close>

definition diamond_idle0 :: rank_state where
  "diamond_idle0 = diamond_rank0_labelled\<lparr>edge_queue := [], queue_is_empty := True,
                                           have_token := False\<rparr>"

definition diamond_idle1 :: rank_state where
  "diamond_idle1 = diamond_rank1\<lparr>queue_is_empty := True\<rparr>"

text \<open>The rank with the two edges from 0 to 1 at the start of step 3 of the first pass: the
  first of the two edges has led to the sink.\<close>

definition parallel_graph_found :: rank_state where
  "parallel_graph_found =
     parallel_graph
       \<lparr>labels := [\<lparr>lvalue = INT_MAX, prev_node = 0, prev_rank_loc = 0, prev_vert_index = 0\<rparr>,
                   \<lparr>lvalue = 5, prev_node = 0, prev_rank_loc = 0, prev_vert_index = 0\<rparr>],
        have_token := True, sink_found := True, step_3_tid := 1,
        edge_queue := [\<lparr>vertex_index = 0, is_outgoing = True, edge_index = 1\<rparr>],
        sent := [(0, SINK_FOUND, No_data)]\<rparr>"

text \<open>The same rank at the end of the run.\<close>

definition parallel_graph_done :: rank_state where
  "parallel_graph_done =
     parallel_graph
       \<lparr>vertices := [\<lparr>vid = 0, out_edges = [mk_out 1 0 1 5 5, mk_out 1 0 1 3 5],
                        in_edges = []\<rparr>,
                      \<lparr>vid = 1, out_edges = [], in_edges = [mk_in 0 0 0, mk_in 0 0 0]\<rparr>],
        labels := [\<lparr>lvalue = INT_MAX, prev_node = 0, prev_rank_loc = 0, prev_vert_index = 0\<rparr>,
                   EMPTY_LABEL],
        queue_is_empty := True, pass := 2, algorithm_complete := True,
        sent := [(0, SINK_FOUND, No_data), (0, TOKEN_WHITE, No_data)]\<rparr>"

text \<open>The rank with the loop at the source after the first pass, and after the run.\<close>

definition loop_graph_pass1 :: "int \<Rightarrow> rank_state" where
  "loop_graph_pass1 c =
     (loop_graph c)
       \<lparr>vertices := [\<lparr>vid = 0, out_edges = [mk_out 0 0 0 c 3, mk_out 1 0 1 3 3],
                        in_edges = [mk_in 0 0 0]\<rparr>,
                      \<lparr>vid = 1, out_edges = [], in_edges = [mk_in 0 0 0]\<rparr>],
        labels := [\<lparr>lvalue = INT_MAX, prev_node = 0, prev_rank_loc = 0, prev_vert_index = 0\<rparr>,
                   \<lparr>lvalue = 3, prev_node = 0, prev_rank_loc = 0, prev_vert_index = 0\<rparr>],
        have_token := True, sink_found := True, step_3_tid := 1, pass := 2,
        sent := [(0, SINK_FOUND, No_data)]\<rparr>"

definition loop_graph_done :: "int \<Rightarrow> rank_state" where
  "loop_graph_done c =
     (loop_graph_pass1 c)
       \<lparr>labels := [\<lparr>lvalue = INT_MAX, prev_node = 0, prev_rank_loc = 0, prev_vert_index = 0\<rparr>,
                   EMPTY_LABEL],
        have_token := False, queue_is_empty := True, sink_found := False, step_3_tid := - 1,
        algorithm_complete := True,
        sent := [(0, SINK_FOUND, No_data), (0, TOKEN_WHITE, No_data)]\<rparr>"

text \<open>
  One rank, the input file \<open>2 2 / 0 5 1 2000000000 /\<close>: a loop at the source of capacity
  5 and an edge from 0 to 1 of capacity 2000000000; then the same rank at the end of the
  run.
\<close>

definition big_loop_graph :: rank_state where
  "big_loop_graph =
     start_state 0 1 2
       [\<lparr>vid = 0, out_edges = [mk_out 0 0 0 5 0, mk_out 1 0 1 2000000000 0],
         in_edges = [mk_in 0 0 0]\<rparr>,
        \<lparr>vid = 1, out_edges = [], in_edges = [mk_in 0 0 0]\<rparr>]
       [0 \<mapsto> 0, 1 \<mapsto> 1]"

definition big_loop_done :: rank_state where
  "big_loop_done =
     big_loop_graph
       \<lparr>vertices := [\<lparr>vid = 0, out_edges = [mk_out 0 0 0 5 2000000000,
                                             mk_out 1 0 1 2000000000 2000000000],
                        in_edges = [mk_in 0 0 0]\<rparr>,
                      \<lparr>vid = 1, out_edges = [], in_edges = [mk_in 0 0 0]\<rparr>],
        labels := [\<lparr>lvalue = INT_MAX, prev_node = 0, prev_rank_loc = 0, prev_vert_index = 0\<rparr>,
                   EMPTY_LABEL],
        queue_is_empty := True, pass := 2, algorithm_complete := True,
        sent := [(0, SINK_FOUND, No_data), (0, TOKEN_WHITE, No_data)]\<rparr>"

text \<open>
  One rank after step 1, with the single edge from 0 to 1 of capacity \<open>INT_MAX\<close> and
  flow \<open>-1\<close>: the difference of the two is not an \<open>int\<close>.
\<close>

definition bound_graph :: rank_state where
  "bound_graph =
     (start_state 0 1 2
       [\<lparr>vid = 0, out_edges = [mk_out 1 0 1 2147483647 (- 1)], in_edges = []\<rparr>,
        \<lparr>vid = 1, out_edges = [], in_edges = [mk_in 0 0 0]\<rparr>]
       [0 \<mapsto> 0, 1 \<mapsto> 1])
       \<lparr>labels := [\<lparr>lvalue = INT_MAX, prev_node = 0, prev_rank_loc = 0, prev_vert_index = 0\<rparr>,
                   EMPTY_LABEL],
        have_token := True,
        edge_queue := [\<lparr>vertex_index = 0, is_outgoing = True, edge_index = 0\<rparr>]\<rparr>"

text \<open>
  The rank with the seven edges in step 3 of the second pass, when the backtracking has
  come from the sink over vertex 4 to vertex 1, whose label is negative.
\<close>

definition cancel_back :: rank_state where
  "cancel_back =
     cancel_mid
       \<lparr>vertices :=
          [\<lparr>vid = 0, out_edges = [mk_out 1 0 1 1 1, mk_out 2 0 2 1 0], in_edges = []\<rparr>,
           \<lparr>vid = 1, out_edges = [mk_out 3 0 3 1 1, mk_out 4 0 4 1 1], in_edges = [mk_in 0 0 0]\<rparr>,
           \<lparr>vid = 2, out_edges = [mk_out 3 0 3 1 0], in_edges = [mk_in 0 0 0]\<rparr>,
           \<lparr>vid = 3, out_edges = [mk_out 5 0 5 1 1], in_edges = [mk_in 1 0 1, mk_in 2 0 2]\<rparr>,
           \<lparr>vid = 4, out_edges = [mk_out 5 0 5 1 1], in_edges = [mk_in 1 0 1]\<rparr>,
           \<lparr>vid = 5, out_edges = [], in_edges = [mk_in 3 0 3, mk_in 4 0 4]\<rparr>],
        labels :=
          [\<lparr>lvalue = INT_MAX, prev_node = 0, prev_rank_loc = 0, prev_vert_index = 0\<rparr>,
           \<lparr>lvalue = - 1, prev_node = 3, prev_rank_loc = 0, prev_vert_index = 3\<rparr>,
           \<lparr>lvalue = 1, prev_node = 0, prev_rank_loc = 0, prev_vert_index = 0\<rparr>,
           \<lparr>lvalue = 1, prev_node = 2, prev_rank_loc = 0, prev_vert_index = 2\<rparr>,
           \<lparr>lvalue = 1, prev_node = 1, prev_rank_loc = 0, prev_vert_index = 1\<rparr>,
           \<lparr>lvalue = 1, prev_node = 4, prev_rank_loc = 0, prev_vert_index = 4\<rparr>],
        sink_found := True, step_3_tid := 1,
        sent := [(0, SINK_FOUND, No_data), (0, SINK_FOUND, No_data)]\<rparr>"

text \<open>
  The diamond again, but with the vertices 0 and 1 on rank 1 and the vertices 2 and 3 on
  rank 0, as the partitioner may place them, and with two units of flow on every edge.
\<close>

definition moved_rank0 :: rank_state where
  "moved_rank0 =
     (start_state 0 2 4
       [\<lparr>vid = 2, out_edges = [mk_out 3 0 1 3 2], in_edges = [mk_in 0 1 NO_LOCAL]\<rparr>,
        \<lparr>vid = 3, out_edges = [], in_edges = [mk_in 1 1 NO_LOCAL, mk_in 2 0 0]\<rparr>]
       [2 \<mapsto> 0, 3 \<mapsto> 1])\<lparr>queue_is_empty := True, algorithm_complete := True\<rparr>"

definition moved_rank1 :: rank_state where
  "moved_rank1 =
     (start_state 1 2 4
       [\<lparr>vid = 0, out_edges = [mk_out 1 1 1 3 2, mk_out 2 0 NO_LOCAL 2 2], in_edges = []\<rparr>,
        \<lparr>vid = 1, out_edges = [mk_out 3 0 NO_LOCAL 2 2], in_edges = [mk_in 0 1 0]\<rparr>]
       [0 \<mapsto> 0, 1 \<mapsto> 1])\<lparr>queue_is_empty := True, algorithm_complete := True\<rparr>"

section \<open>Reading lists, and the examples unfolded\<close>

lemma int32_id: "- 2147483648 \<le> x \<Longrightarrow> x \<le> 2147483647 \<Longrightarrow> int32 x = x"
  by (simp add: int32_def)

lemma int32_range: "- 2147483648 \<le> int32 x \<and> int32 x \<le> 2147483647"
  by (simp add: int32_def)



lemma nth_opt_Some [simp]: "i < length xs \<Longrightarrow> nth_opt xs i = Some (xs ! i)"
  by (simp add: nth_opt_def)

lemma nth_opt_None [simp]: "\<not> i < length xs \<Longrightarrow> nth_opt xs i = None"
  by (simp add: nth_opt_def)

lemma nth_opt_eq_Some: "nth_opt xs i = Some x \<longleftrightarrow> i < length xs \<and> x = xs ! i"
  by (auto simp: nth_opt_def)

lemma edge_skipped_in_range:
  assumes "vert_idx < length (labels s)"
    and "rank_location edge = mpi_rank s \<longrightarrow> vert_index edge < length (labels s)"
  shows "edge_skipped s vert_idx edge =
           Some ((rank_location edge = mpi_rank s \<and> lvalue (labels s ! vert_index edge) \<noteq> 0)
                 \<or> dest_node_id edge = prev_node (labels s ! vert_idx))"
  using assms by (auto simp: edge_skipped_def came_from_def)

lemma edge_skipped_False:
  "edge_skipped s vert_idx edge = Some False \<Longrightarrow>
     vert_idx < length (labels s) \<and> dest_node_id edge \<noteq> prev_node (labels s ! vert_idx)"
  by (auto simp: edge_skipped_def came_from_def nth_opt_def split: if_splits bind_splits)

lemma fragment_loop_Some:
  "fragment_loop s v outgoing i es = Some r \<Longrightarrow>
     r = map (\<lambda>(j, e). \<lparr>vertex_index = v, is_outgoing = outgoing, edge_index = j\<rparr>)
           (filter (\<lambda>(j, e). edge_skipped s v e = Some False) (enumerate i es))"
proof (induction es arbitrary: i r)
  case Nil
  then show ?case by simp
next
  case (Cons e es)
  then show ?case
    by (auto split: bind_splits if_splits)
qed

lemma fragment_loop_defined:
  "\<forall>e \<in> set es. edge_skipped s v e \<noteq> None \<Longrightarrow> fragment_loop s v outgoing i es \<noteq> None"
proof (induction es arbitrary: i)
  case Nil
  then show ?case by simp
next
  case (Cons e es)
  from Cons.prems obtain sk where sk: "edge_skipped s v e = Some sk" by auto
  from Cons.prems have "\<forall>e \<in> set es. edge_skipped s v e \<noteq> None" by simp
  from Cons.IH [OF this, of "Suc i"] obtain more
    where "fragment_loop s v outgoing (Suc i) es = Some more" by auto
  with sk show ?case by simp
qed

lemma fragment_loop_eq:
  assumes "\<forall>e \<in> set es. edge_skipped s v e \<noteq> None"
  shows "fragment_loop s v outgoing i es =
           Some (map (\<lambda>(j, e). \<lparr>vertex_index = v, is_outgoing = outgoing, edge_index = j\<rparr>)
                   (filter (\<lambda>(j, e). edge_skipped s v e = Some False) (enumerate i es)))"
  using fragment_loop_defined [OF assms] fragment_loop_Some by blast


lemma insert_edges_Some:
  assumes "insert_edges i s = Some s'"
  shows "\<exists>q. s' = s\<lparr>edge_queue := edge_queue s @ q\<rparr>"
  using assms by (auto simp: insert_edges_def split: bind_splits)

lemma insert_edges_labels: "insert_edges i s = Some s' \<Longrightarrow> labels s' = labels s"
  by (drule insert_edges_Some) auto

lemma set_label_set:
  assumes "i < length (labels s)" and "lvalue (labels s ! i) \<noteq> 0"
  shows "set_label pn pr pi i val s = Some (False, s)"
  using assms by (simp add: set_label_def)

lemma set_label_empty:
  assumes "set_label pn pr pi i val s = Some (f, s')" and "lvalue (labels s ! i) = 0"
  shows "i < length (labels s) \<and> i < length (vertices s)
         \<and> (f \<longleftrightarrow> vid (vertices s ! i) = sink_id s)
         \<and> (if f then s' = s\<lparr>labels := (labels s)[i := \<lparr>lvalue = val, prev_node = pn,
                                      prev_rank_loc = pr, prev_vert_index = pi\<rparr>]\<rparr>
              else insert_edges i (s\<lparr>labels := (labels s)[i := \<lparr>lvalue = val, prev_node = pn,
                                      prev_rank_loc = pr, prev_vert_index = pi\<rparr>]\<rparr>) = Some s')"
  using assms
  by (auto simp: set_label_def nth_opt_eq_Some Let_def split: bind_splits if_splits)

lemma set_label_labels:
  assumes "set_label pn pr pi i val s = Some (f, s')"
  shows "labels s' = (if lvalue (labels s ! i) = 0
                      then (labels s)[i := \<lparr>lvalue = val, prev_node = pn,
                                      prev_rank_loc = pr, prev_vert_index = pi\<rparr>]
                      else labels s)"
proof (cases "lvalue (labels s ! i) = 0")
  case True
  from set_label_empty [OF assms True] show ?thesis
    using True by (auto dest: insert_edges_labels split: if_splits)
next
  case False
  from assms have "i < length (labels s)"
    by (auto simp: set_label_def nth_opt_eq_Some split: bind_splits)
  with False assms show ?thesis by (simp add: set_label_set)
qed


lemmas model_defs =
  set_label_def insert_edges_def edge_skipped_def came_from_def nth_opt_def
  lookup_global_id_def MPI_Ssend_def ERROR_def NO_LOCAL_def INT_MAX_def INT_MIN_def
  EMPTY_LABEL_def int32_id

lemmas example_defs =
  start_state_def mk_out_def mk_in_def loop_graph_def parallel_graph_def
  diamond_rank0_def diamond_rank1_def diamond_rank0_labelled_def loop_graph_labelled_def
  cancel_graph_def cancel_mid_def diamond_rank1_labelled_def diamond_rank1_token_def
  stale_update_def diamond_idle0_def diamond_idle1_def
  parallel_graph_found_def loop_graph_pass1_def loop_graph_done_def
  parallel_graph_done_def moved_rank0_def moved_rank1_def split_rank0_def split_rank0_mid_def
  big_loop_graph_def big_loop_done_def bound_graph_def cancel_back_def

lemma step_1_diamond_rank0: "step_1 diamond_rank0 = Some diamond_rank0_labelled"
  by (simp add: step_1_def model_defs example_defs)


section \<open>The edges that a newly labelled vertex puts in the queue\<close>

lemma step_1_queue:
  assumes "step_1 s0 = Some s1" and "entry \<in> set (edge_queue s1)"
  shows "(if is_outgoing entry
          then dest_node_id (out_edges (vertices s1 ! vertex_index entry) ! edge_index entry)
          else dest_node_id (in_edges (vertices s1 ! vertex_index entry) ! edge_index entry))
         \<noteq> source_id s0"
proof -
  define w where "w = s0\<lparr>labels := replicate (length (labels s0)) EMPTY_LABEL,
                  working_threads := 0, my_color := TOKEN_WHITE, have_token := (mpi_rank s0 = 0),
                  token_color := TOKEN_WHITE, queue_is_empty := False, sink_found := False,
                  step_3_tid := - 1, edge_queue := []\<rparr>"
  define i where "i = lookup_global_id w (source_id w)"
  have wq: "edge_queue w = []" and wsrc: "source_id w = source_id s0"
    and wl: "labels w = replicate (length (labels s0)) EMPTY_LABEL"
    by (simp_all add: w_def)
  show ?thesis
  proof (cases "i = NO_LOCAL")
    case True
    with assms(1) have "s1 = w" by (simp add: step_1_def Let_def w_def i_def)
    with assms(2) wq show ?thesis by simp
  next
    case False
    with assms(1) obtain f where run: "set_label (source_id w) (mpi_rank w) i i INT_MAX w = Some (f, s1)"
      by (auto simp: step_1_def Let_def w_def i_def split: bind_splits)
    then have len: "i < length (labels w)"
      by (auto simp: set_label_def nth_opt_eq_Some split: bind_splits)
    then have z: "lvalue (labels w ! i) = 0" by (simp add: wl EMPTY_LABEL_def)
    define w' where "w' = w\<lparr>labels := (labels w)[i := \<lparr>lvalue = INT_MAX, prev_node = source_id w,
                                      prev_rank_loc = mpi_rank w, prev_vert_index = i\<rparr>]\<rparr>"
    note e = set_label_empty [OF run z, folded w'_def]
    show ?thesis
    proof (cases f)
      case True
      with e have "edge_queue s1 = []" by (simp add: w'_def wq)
      with assms(2) show ?thesis by simp
    next
      case False
      with e have ins: "insert_edges i w' = Some s1" by simp
      have pn: "prev_node (labels w' ! i) = source_id s0"
        using len by (simp add: w'_def wsrc)
      from ins obtain outs ins' where
        o: "fragment_loop w' i True 0 (out_edges (vertices w' ! i)) = Some outs" and
        n: "fragment_loop w' i False 0 (in_edges (vertices w' ! i)) = Some ins'" and
        s1: "s1 = w'\<lparr>edge_queue := edge_queue w' @ outs @ ins'\<rparr>"
        by (auto simp: insert_edges_def nth_opt_eq_Some split: bind_splits)
      have q: "edge_queue w' = []" by (simp add: w'_def wq)
      from assms(2) s1 q consider "entry \<in> set outs" | "entry \<in> set ins'" by auto
      then show ?thesis
      proof cases
        case 1
        then obtain j ed where
          "(j, ed) \<in> set (enumerate 0 (out_edges (vertices w' ! i)))"
          "edge_skipped w' i ed = Some False"
          "entry = \<lparr>vertex_index = i, is_outgoing = True, edge_index = j\<rparr>"
          unfolding fragment_loop_Some [OF o] by auto
        then show ?thesis
          using pn by (auto simp: s1 in_set_enumerate_eq dest!: edge_skipped_False)
      next
        case 2
        then obtain j ed where
          "(j, ed) \<in> set (enumerate 0 (in_edges (vertices w' ! i)))"
          "edge_skipped w' i ed = Some False"
          "entry = \<lparr>vertex_index = i, is_outgoing = False, edge_index = j\<rparr>"
          unfolding fragment_loop_Some [OF n] by auto
        then show ?thesis
          using pn by (auto simp: s1 in_set_enumerate_eq dest!: edge_skipped_False)
      qed
    qed
  qed
qed


lemma filter_skipped:
  assumes "vert_idx < length (labels s)"
    and "\<forall>e \<in> set es. rank_location e = mpi_rank s \<longrightarrow> vert_index e < length (labels s)"
  shows "filter (\<lambda>(j, e). edge_skipped s vert_idx e = Some False) (enumerate i es) =
         filter (\<lambda>(j, e). \<not> (rank_location e = mpi_rank s
                                            \<and> lvalue (labels s ! vert_index e) \<noteq> 0)
                                      \<and> dest_node_id e \<noteq> prev_node (labels s ! vert_idx))
           (enumerate i es)"
proof (rule filter_cong [OF refl])
  fix x assume "x \<in> set (enumerate i es)"
  then have k: "i \<le> fst x" "fst x < length es + i" "es ! (fst x - i) = snd x"
    by (simp_all add: in_set_enumerate_eq)
  then have "fst x - i < length es" by arith
  then have "es ! (fst x - i) \<in> set es" by (rule nth_mem)
  then obtain j e where x: "x = (j, e)" and "e \<in> set es"
    using k(3) by (cases x) simp
  with assms(2) have "rank_location e = mpi_rank s \<longrightarrow> vert_index e < length (labels s)"
    by blast
  from edge_skipped_in_range [OF assms(1) this] show
    "(case x of (j, e) \<Rightarrow> edge_skipped s vert_idx e = Some False) =
     (case x of (j, e) \<Rightarrow> \<not> (rank_location e = mpi_rank s
                                            \<and> lvalue (labels s ! vert_index e) \<noteq> 0)
                                      \<and> dest_node_id e \<noteq> prev_node (labels s ! vert_idx))"
    by (simp add: x)
qed


text \<open>
  Claim C10. For a vertex \<open>vert_idx\<close> whose indices are in range, \<open>insert_edges\<close>
  appends to the queue one entry for each outgoing edge and then one for each incoming
  edge, in order, leaving out exactly the edges whose far end is on this rank and has a
  non-zero label and the edges whose far end is \<open>labels[vert_idx].prev_node\<close>; nothing
  else changes. In particular, after step 1 (which labels the source with itself as
  predecessor) no entry in the queue is an edge whose far end is the source, so a loop at
  the source is not in the queue.
\<close>

theorem insert_edges_enqueues:
  assumes "vert_idx < length (vertices s)" and "vert_idx < length (labels s)"
    and "\<forall>e \<in> set (out_edges (vertices s ! vert_idx)).
           rank_location e = mpi_rank s \<longrightarrow> vert_index e < length (labels s)"
    and "\<forall>e \<in> set (in_edges (vertices s ! vert_idx)).
           rank_location e = mpi_rank s \<longrightarrow> vert_index e < length (labels s)"
  shows "insert_edges vert_idx s =
           Some (s\<lparr>edge_queue := edge_queue s
              @ map (\<lambda>(i, e). \<lparr>vertex_index = vert_idx, is_outgoing = True, edge_index = i\<rparr>)
                  (filter (\<lambda>(i, e). \<not> (rank_location e = mpi_rank s
                                            \<and> lvalue (labels s ! vert_index e) \<noteq> 0)
                                      \<and> dest_node_id e \<noteq> prev_node (labels s ! vert_idx))
                     (enumerate 0 (out_edges (vertices s ! vert_idx))))
              @ map (\<lambda>(i, e). \<lparr>vertex_index = vert_idx, is_outgoing = False, edge_index = i\<rparr>)
                  (filter (\<lambda>(i, e). \<not> (rank_location e = mpi_rank s
                                            \<and> lvalue (labels s ! vert_index e) \<noteq> 0)
                                      \<and> dest_node_id e \<noteq> prev_node (labels s ! vert_idx))
                     (enumerate 0 (in_edges (vertices s ! vert_idx))))\<rparr>)
         \<and> (\<forall>s0 s1. step_1 s0 = Some s1 \<longrightarrow>
               (\<forall>entry \<in> set (edge_queue s1).
                  (if is_outgoing entry
                   then dest_node_id (out_edges (vertices s1 ! vertex_index entry) ! edge_index entry)
                   else dest_node_id (in_edges (vertices s1 ! vertex_index entry) ! edge_index entry))
                  \<noteq> source_id s0))"
proof (intro conjI allI impI ballI)
  let ?v = "vertices s ! vert_idx"
  note sk = edge_skipped_in_range [OF assms(2)]
  have o: "fragment_loop s vert_idx True 0 (out_edges ?v) =
             Some (map (\<lambda>(i, e). \<lparr>vertex_index = vert_idx, is_outgoing = True, edge_index = i\<rparr>)
                  (filter (\<lambda>(i, e). \<not> (rank_location e = mpi_rank s
                                            \<and> lvalue (labels s ! vert_index e) \<noteq> 0)
                                      \<and> dest_node_id e \<noteq> prev_node (labels s ! vert_idx))
                     (enumerate 0 (out_edges ?v))))"
  proof -
    have "\<forall>e \<in> set (out_edges ?v). edge_skipped s vert_idx e \<noteq> None"
      using assms(3) by (simp add: sk)
    from fragment_loop_eq [OF this] show ?thesis
      by (simp add: filter_skipped [OF assms(2) assms(3)])
  qed
  have n: "fragment_loop s vert_idx False 0 (in_edges ?v) =
             Some (map (\<lambda>(i, e). \<lparr>vertex_index = vert_idx, is_outgoing = False, edge_index = i\<rparr>)
                  (filter (\<lambda>(i, e). \<not> (rank_location e = mpi_rank s
                                            \<and> lvalue (labels s ! vert_index e) \<noteq> 0)
                                      \<and> dest_node_id e \<noteq> prev_node (labels s ! vert_idx))
                     (enumerate 0 (in_edges ?v))))"
  proof -
    have "\<forall>e \<in> set (in_edges ?v). edge_skipped s vert_idx e \<noteq> None"
      using assms(4) by (simp add: sk)
    from fragment_loop_eq [OF this] show ?thesis
      by (simp add: filter_skipped [OF assms(2) assms(4)])
  qed
  show "insert_edges vert_idx s = Some (s\<lparr>edge_queue := edge_queue s
              @ map (\<lambda>(i, e). \<lparr>vertex_index = vert_idx, is_outgoing = True, edge_index = i\<rparr>)
                  (filter (\<lambda>(i, e). \<not> (rank_location e = mpi_rank s
                                            \<and> lvalue (labels s ! vert_index e) \<noteq> 0)
                                      \<and> dest_node_id e \<noteq> prev_node (labels s ! vert_idx))
                     (enumerate 0 (out_edges (vertices s ! vert_idx))))
              @ map (\<lambda>(i, e). \<lparr>vertex_index = vert_idx, is_outgoing = False, edge_index = i\<rparr>)
                  (filter (\<lambda>(i, e). \<not> (rank_location e = mpi_rank s
                                            \<and> lvalue (labels s ! vert_index e) \<noteq> 0)
                                      \<and> dest_node_id e \<noteq> prev_node (labels s ! vert_idx))
                     (enumerate 0 (in_edges (vertices s ! vert_idx))))\<rparr>)"
    using assms(1) by (simp add: insert_edges_def o n)
next
  fix s0 s1 entry
  assume "step_1 s0 = Some s1" and "entry \<in> set (edge_queue s1)"
  then show "(if is_outgoing entry
                   then dest_node_id (out_edges (vertices s1 ! vertex_index entry) ! edge_index entry)
                   else dest_node_id (in_edges (vertices s1 ! vertex_index entry) ! edge_index entry))
                  \<noteq> source_id s0"
    by (rule step_1_queue)
qed

theorem insert_edges_enqueues_witness:
  "(0 < length (vertices diamond_rank0_labelled) \<and> 0 < length (labels diamond_rank0_labelled)
    \<and> length (out_edges (vertices diamond_rank0_labelled ! 0)) = 2
    \<and> vert_index (out_edges (vertices diamond_rank0_labelled ! 0) ! 0)
         < length (labels diamond_rank0_labelled)
    \<and> rank_location (out_edges (vertices diamond_rank0_labelled ! 0) ! 1)
         \<noteq> mpi_rank diamond_rank0_labelled
    \<and> in_edges (vertices diamond_rank0_labelled ! 0) = [])
   \<and> insert_edges 0 diamond_rank0_labelled =
       Some (diamond_rank0_labelled
          \<lparr>edge_queue := [\<lparr>vertex_index = 0, is_outgoing = True, edge_index = 0\<rparr>,
                          \<lparr>vertex_index = 0, is_outgoing = True, edge_index = 1\<rparr>,
                          \<lparr>vertex_index = 0, is_outgoing = True, edge_index = 0\<rparr>,
                          \<lparr>vertex_index = 0, is_outgoing = True, edge_index = 1\<rparr>]\<rparr>)
   \<and> step_1 (loop_graph 100) = Some (loop_graph_labelled 100)
   \<and> \<lparr>vertex_index = 0, is_outgoing = True, edge_index = 1\<rparr>
         \<in> set (edge_queue (loop_graph_labelled 100))
   \<and> dest_node_id (out_edges (vertices (loop_graph_labelled 100) ! 0) ! 1)
         \<noteq> source_id (loop_graph 100)"
  (is "?h \<and> ?ins \<and> ?st \<and> ?mem \<and> ?loop")
proof -
  have h: ?h by (simp add: example_defs)
  have st: ?st by (simp add: step_1_def model_defs example_defs loop_graph_labelled_def)
  have mem: ?mem by (simp add: loop_graph_labelled_def)
  have h1: "0 < length (vertices diamond_rank0_labelled)"
    and h2: "0 < length (labels diamond_rank0_labelled)"
    and h3: "\<forall>e \<in> set (out_edges (vertices diamond_rank0_labelled ! 0)).
         rank_location e = mpi_rank diamond_rank0_labelled
           \<longrightarrow> vert_index e < length (labels diamond_rank0_labelled)"
    and h4: "\<forall>e \<in> set (in_edges (vertices diamond_rank0_labelled ! 0)).
         rank_location e = mpi_rank diamond_rank0_labelled
           \<longrightarrow> vert_index e < length (labels diamond_rank0_labelled)"
    by (simp_all add: example_defs)
  note T = insert_edges_enqueues [OF h1 h2 h3 h4]
  from T have ins: ?ins by (simp add: example_defs EMPTY_LABEL_def INT_MAX_def)
  from T st mem
  have "(if is_outgoing \<lparr>vertex_index = 0, is_outgoing = True, edge_index = 1\<rparr>
         then dest_node_id (out_edges (vertices (loop_graph_labelled 100)
                 ! vertex_index \<lparr>vertex_index = 0, is_outgoing = True, edge_index = 1\<rparr>)
                 ! edge_index \<lparr>vertex_index = 0, is_outgoing = True, edge_index = 1\<rparr>)
         else dest_node_id (in_edges (vertices (loop_graph_labelled 100)
                 ! vertex_index \<lparr>vertex_index = 0, is_outgoing = True, edge_index = 1\<rparr>)
                 ! edge_index \<lparr>vertex_index = 0, is_outgoing = True, edge_index = 1\<rparr>))
        \<noteq> source_id (loop_graph 100)"
    by blast
  then have ?loop by simp
  with h ins st mem show ?thesis by blast
qed

section \<open>set_label is a compare-and-set\<close>

text \<open>
  Claim C6. A call of \<open>set_label\<close> on a slot whose value is not 0 returns \<open>false\<close> and
  leaves the whole state as it was (nothing is written, nothing is put in the queue). A
  call that returns on a slot whose value is 0 writes the value and the three
  back-pointer fields of that slot, and then either reports the sink (the queue is not
  touched) or runs \<open>insert_edges\<close> for the vertex. No call changes a slot that holds a
  non-zero value: such a slot is written once.
\<close>

theorem set_label_compare_and_set:
  "(i < length (labels s) \<and> lvalue (labels s ! i) \<noteq> 0
      \<longrightarrow> set_label pn pr pi i val s = Some (False, s))
   \<and> (\<forall>f s'. set_label pn pr pi i val s = Some (f, s') \<longrightarrow>
          (lvalue (labels s ! i) = 0 \<longrightarrow>
             labels s' = (labels s)[i := \<lparr>lvalue = val, prev_node = pn,
                                         prev_rank_loc = pr, prev_vert_index = pi\<rparr>]
             \<and> (f \<longleftrightarrow> vid (vertices s ! i) = sink_id s)
             \<and> (f \<longrightarrow> edge_queue s' = edge_queue s)
             \<and> (\<not> f \<longrightarrow> insert_edges i (s\<lparr>labels := (labels s)[i := \<lparr>lvalue = val,
                      prev_node = pn, prev_rank_loc = pr, prev_vert_index = pi\<rparr>]\<rparr>) = Some s'))
          \<and> (lvalue (labels s ! i) \<noteq> 0 \<longrightarrow> \<not> f \<and> s' = s)
          \<and> (\<forall>j < length (labels s). lvalue (labels s ! j) \<noteq> 0 \<longrightarrow> labels s' ! j = labels s ! j))"
proof (intro conjI allI impI)
  assume "i < length (labels s) \<and> lvalue (labels s ! i) \<noteq> 0"
  then show "set_label pn pr pi i val s = Some (False, s)" by (simp add: set_label_set)
next
  fix f s'
  assume run: "set_label pn pr pi i val s = Some (f, s')"
  from run have len: "i < length (labels s)"
    by (auto simp: set_label_def nth_opt_eq_Some split: bind_splits)
  {
    assume z: "lvalue (labels s ! i) = 0"
    note e = set_label_empty [OF run z]
    show "labels s' = (labels s)[i := \<lparr>lvalue = val, prev_node = pn,
                                         prev_rank_loc = pr, prev_vert_index = pi\<rparr>]"
      using set_label_labels [OF run] z by simp
    show "f \<longleftrightarrow> vid (vertices s ! i) = sink_id s" using e by simp
    { assume f then show "edge_queue s' = edge_queue s" using e by simp }
    { assume "\<not> f" then show "insert_edges i (s\<lparr>labels := (labels s)[i := \<lparr>lvalue = val,
                      prev_node = pn, prev_rank_loc = pr, prev_vert_index = pi\<rparr>]\<rparr>) = Some s'"
        using e by simp }
  }
  {
    assume nz: "lvalue (labels s ! i) \<noteq> 0"
    from run show "\<not> f" using set_label_set [OF len nz] by simp
    from run show "s' = s" using set_label_set [OF len nz] by simp
  }
  {
    fix j assume "j < length (labels s)" and "lvalue (labels s ! j) \<noteq> 0"
    then show "labels s' ! j = labels s ! j"
      using set_label_labels [OF run] by (cases "i = j") auto
  }
qed



theorem set_label_compare_and_set_witness:
  "(0 < length (labels diamond_rank0_labelled) \<and> lvalue (labels diamond_rank0_labelled ! 0) \<noteq> 0)
   \<and> set_label 1 0 0 0 7 diamond_rank0_labelled = Some (False, diamond_rank0_labelled)
   \<and> lvalue (labels diamond_rank0_labelled ! 1) = 0
   \<and> set_label 0 0 0 1 3 diamond_rank0_labelled =
       Some (False, diamond_rank0_labelled
          \<lparr>labels := [\<lparr>lvalue = INT_MAX, prev_node = 0, prev_rank_loc = 0, prev_vert_index = 0\<rparr>,
                      \<lparr>lvalue = 3, prev_node = 0, prev_rank_loc = 0, prev_vert_index = 0\<rparr>],
           edge_queue := [\<lparr>vertex_index = 0, is_outgoing = True, edge_index = 0\<rparr>,
                          \<lparr>vertex_index = 0, is_outgoing = True, edge_index = 1\<rparr>,
                          \<lparr>vertex_index = 1, is_outgoing = True, edge_index = 0\<rparr>]\<rparr>)
   \<and> labels (diamond_rank0_labelled
          \<lparr>labels := [\<lparr>lvalue = INT_MAX, prev_node = 0, prev_rank_loc = 0, prev_vert_index = 0\<rparr>,
                      \<lparr>lvalue = 3, prev_node = 0, prev_rank_loc = 0, prev_vert_index = 0\<rparr>],
           edge_queue := [\<lparr>vertex_index = 0, is_outgoing = True, edge_index = 0\<rparr>,
                          \<lparr>vertex_index = 0, is_outgoing = True, edge_index = 1\<rparr>,
                          \<lparr>vertex_index = 1, is_outgoing = True, edge_index = 0\<rparr>]\<rparr>) ! 0
       = labels diamond_rank0_labelled ! 0"
  (is "?h \<and> ?c1 \<and> ?z \<and> ?run \<and> ?keep")
proof -
  have h: ?h by (simp add: example_defs INT_MAX_def)
  have z: ?z by (simp add: example_defs EMPTY_LABEL_def)
  have run: ?run by (simp add: model_defs example_defs)
  from set_label_compare_and_set [of 0 diamond_rank0_labelled 1 0 0 7] h
  have c1: ?c1 by blast
  from set_label_compare_and_set [of 1 diamond_rank0_labelled 0 0 0 3] run h
  have ?keep by blast
  with h z run c1 show ?thesis by blast
qed

section \<open>What set_label leaves alone; running the examples\<close>

lemma set_label_frame:
  assumes "set_label pn pr pi i val s = Some (f, s')"
  shows "\<exists>q. s' = s\<lparr>labels := labels s', edge_queue := edge_queue s @ q\<rparr>"
proof (cases "lvalue (labels s ! i) = 0")
  case True
  note e = set_label_empty [OF assms True]
  show ?thesis
  proof (cases f)
    case True
    with e have "s' = s\<lparr>labels := labels s', edge_queue := edge_queue s @ []\<rparr>" by simp
    then show ?thesis ..
  next
    case False
    with e obtain q where "s' = s\<lparr>labels := (labels s)[i := \<lparr>lvalue = val, prev_node = pn,
         prev_rank_loc = pr, prev_vert_index = pi\<rparr>]\<rparr>\<lparr>edge_queue := edge_queue s @ q\<rparr>"
      by (auto dest!: insert_edges_Some)
    then have "s' = s\<lparr>labels := labels s', edge_queue := edge_queue s @ q\<rparr>" by simp
    then show ?thesis ..
  qed
next
  case False
  from assms have "i < length (labels s)"
    by (auto simp: set_label_def nth_opt_eq_Some split: bind_splits)
  with False assms have "s' = s" by (simp add: set_label_set)
  then have "s' = s\<lparr>labels := labels s', edge_queue := edge_queue s @ []\<rparr>" by simp
  then show ?thesis ..
qed

lemma set_label_keeps:
  assumes "set_label pn pr pi i val s = Some (f, s')"
  shows "sent s' = sent s" "my_color s' = my_color s" "vertices s' = vertices s"
    "mpi_rank s' = mpi_rank s" "errors s' = errors s" "working_threads s' = working_threads s"
    "pass s' = pass s" "sink_id s' = sink_id s"
proof -
  from set_label_frame [OF assms] obtain q
    where s': "s' = s\<lparr>labels := labels s', edge_queue := edge_queue s @ q\<rparr>" ..
  show "sent s' = sent s" by (subst s') simp
  show "my_color s' = my_color s" by (subst s') simp
  show "vertices s' = vertices s" by (subst s') simp
  show "mpi_rank s' = mpi_rank s" by (subst s') simp
  show "errors s' = errors s" by (subst s') simp
  show "working_threads s' = working_threads s" by (subst s') simp
  show "pass s' = pass s" by (subst s') simp
  show "sink_id s' = sink_id s" by (subst s') simp
qed

lemma bind_Some_map: "(x \<bind> (\<lambda>y. Some (f y))) = map_option f x"
  by (cases x) simp_all

lemma sub_working_add [simp]:
  "sub_working (s\<lparr>working_threads := working_threads s + 1\<rparr>) = s"
  by (simp add: sub_working_def)

lemma labels_sub_working [simp]: "labels (sub_working s) = labels s"
  by (simp add: sub_working_def)

lemma labels_claim_step_3 [simp]: "labels (claim_step_3 tid s) = labels s"
  by (simp add: claim_step_3_def ERROR_def)

lemma labels_ERROR [simp]: "labels (ERROR txt s) = labels s"
  by (simp add: ERROR_def)

lemmas run_defs =
  single_rank_pass_def step_1_def router_step_def sub_working_def worker_process_def
  handle_out_edge_def handle_in_edge_def first_flow_def claim_step_3_def step_3_begin_def
  step_3_end_def bt_local_def update_out_edges_def add_flow_def worker_idle_def no_msg_def
  receive_token_def check_termination_def empty_flag_def

lemma worker_loop_numeral:
  "worker_loop (numeral k) tid s =
     (if sink_found s then Some (NO_LOCAL, s)
      else case edge_queue s of
             [] \<Rightarrow> Some (NO_LOCAL, s)
           | entry # rest \<Rightarrow>
               do { (bt, s1) \<leftarrow> worker_process tid entry (s\<lparr>edge_queue := rest\<rparr>);
                    if bt \<noteq> NO_LOCAL then Some (bt, s1) else worker_loop (pred_numeral k) tid s1 })"
  using worker_loop.simps(2) [of "pred_numeral k" tid s] by (simp only: numeral_eq_Suc)

lemma backtrack_numeral:
  "backtrack (numeral k) b s =
     (if step_3_done b \<or> bt_idx b = NO_LOCAL then Some (b, s)
      else do { (b', s') \<leftarrow> bt_local b s; backtrack (pred_numeral k) b' s' })"
  using backtrack.simps(2) [of "pred_numeral k" b s] by (simp only: numeral_eq_Suc)

lemma single_rank_run_numeral:
  "single_rank_run (numeral k) n s =
     (if algorithm_complete s then Some s
      else do { s' \<leftarrow> single_rank_pass n s; single_rank_run (pred_numeral k) n s' })"
  using single_rank_run.simps(2) [of "pred_numeral k" n s] by (simp only: numeral_eq_Suc)

lemmas fuel = worker_loop_numeral backtrack_numeral single_rank_run_numeral

text \<open>The example states that are not start states are reached by the model.\<close>

lemma diamond_rank1_labelled_reached:
  "step_1 diamond_rank1 \<bind>
     router_step 0 0 SET_TO_LABEL
       \<lparr>senders_node = 0, receivers_node = 2, msg_value = 2, msg_pass = 1\<rparr> 0 NO_LOCAL
   = Some (Continue, NO_LOCAL, diamond_rank1_labelled)"
  by (simp add: run_defs model_defs example_defs)

lemma cancel_mid_reached:
  "single_rank_pass 6 cancel_graph \<bind> step_1 \<bind> worker_loop 4 1 =
     Some (NO_LOCAL, cancel_mid\<lparr>edge_queue := [\<lparr>vertex_index = 3, is_outgoing = False, edge_index = 0\<rparr>]\<rparr>)"
  by (simp add: run_defs model_defs example_defs fuel)

lemma loop_graph_labelled_reached: "step_1 (loop_graph c) = Some (loop_graph_labelled c)"
  by (simp add: run_defs model_defs example_defs)

section \<open>A popped outgoing edge\<close>

text \<open>
  Claim C4. Let the popped entry name the outgoing edge \<open>edge\<close> of the local vertex \<open>u\<close>,
  with \<open>residual = capacity - flow\<close>, and let neither this difference nor the absolute
  value of the label of \<open>u\<close> overflow an \<open>int\<close>. If \<open>residual \<le> 0\<close> the entry is
  discarded: the state is unchanged. Otherwise the proposed label is \<open>min |label(u)| residual\<close>. If the far end
  is on another rank, the worker sends \<open>SET_TO_LABEL\<close> with the ids of both ends, the
  proposed value and the pass to that rank, after turning red if that rank is lower. If
  the far end is on this rank and labelled, nothing changes; if it is unlabelled, it gets
  the proposed value with \<open>u\<close> as predecessor, and then either it is the sink, whose
  index is returned (the worker then claims step 3, sends \<open>SINK_FOUND\<close> to its own rank
  and sets \<open>sink_found\<close>), or its edges are put in the queue.
\<close>

theorem handle_out_edge_cases:
  fixes entry :: edge_entry and s :: rank_state
  defines "u \<equiv> vertex_index entry"
  defines "edge \<equiv> out_edges (vertices s ! u) ! edge_index entry"
  defines "residual \<equiv> capacity edge - flow edge"
  defines "proposed \<equiv> min \<bar>lvalue (labels s ! u)\<bar> residual"
  defines "labelled \<equiv> s\<lparr>labels := (labels s)[vert_index edge :=
              \<lparr>lvalue = proposed, prev_node = vid (vertices s ! u),
               prev_rank_loc = mpi_rank s, prev_vert_index = u\<rparr>]\<rparr>"
  assumes "u < length (vertices s)" and "edge_index entry < length (out_edges (vertices s ! u))"
    and "u < length (labels s)"
    and no_overflow: "INT_MIN \<le> residual" "residual \<le> INT_MAX"
      "\<bar>lvalue (labels s ! u)\<bar> \<le> INT_MAX"
  shows "(residual \<le> 0 \<longrightarrow> handle_out_edge entry s = Some (NO_LOCAL, s))
    \<and> (0 < residual \<and> rank_location edge \<noteq> mpi_rank s \<longrightarrow>
         handle_out_edge entry s =
           Some (NO_LOCAL,
                 s\<lparr>my_color := (if rank_location edge < mpi_rank s then TOKEN_RED else my_color s),
                   sent := sent s @ [(rank_location edge, SET_TO_LABEL,
                            Msg \<lparr>senders_node = vid (vertices s ! u),
                                 receivers_node = dest_node_id edge,
                                 msg_value = proposed, msg_pass = pass s\<rparr>)]\<rparr>))
    \<and> (0 < residual \<and> rank_location edge = mpi_rank s \<and> vert_index edge < length (labels s)
         \<and> lvalue (labels s ! vert_index edge) \<noteq> 0 \<longrightarrow>
         handle_out_edge entry s = Some (NO_LOCAL, s))
    \<and> (0 < residual \<and> rank_location edge = mpi_rank s \<and> vert_index edge < length (labels s)
         \<and> lvalue (labels s ! vert_index edge) = 0 \<and> vert_index edge < length (vertices s) \<longrightarrow>
         handle_out_edge entry s =
           (if vid (vertices s ! vert_index edge) = sink_id s then Some (vert_index edge, labelled)
            else map_option (Pair NO_LOCAL) (insert_edges (vert_index edge) labelled))
         \<and> (vid (vertices s ! vert_index edge) = sink_id s \<and> vert_index edge \<noteq> NO_LOCAL
              \<and> \<not> sink_found s \<and> is_outgoing entry \<longrightarrow>
            worker_process tid entry s =
              Some (vert_index edge,
                    (claim_step_3 tid (labelled\<lparr>queue_is_empty := False\<rparr>))
                      \<lparr>sent := sent s @ [(mpi_rank s, SINK_FOUND, No_data)],
                       sink_found := True\<rparr>)))"
proof -
  note r = assms(6-8) [unfolded u_def]
  have "int32 (capacity edge - flow edge) = residual"
    using no_overflow(1,2) by (simp add: residual_def INT_MIN_def INT_MAX_def int32_id)
  moreover have "int32 \<bar>lvalue (labels s ! u)\<bar> = \<bar>lvalue (labels s ! u)\<bar>"
    using no_overflow(3) by (simp add: INT_MAX_def int32_id)
  ultimately have w [simp]:
    "int32 (capacity (out_edges (vertices s ! vertex_index entry) ! edge_index entry)
            - flow (out_edges (vertices s ! vertex_index entry) ! edge_index entry))
       = capacity (out_edges (vertices s ! vertex_index entry) ! edge_index entry)
         - flow (out_edges (vertices s ! vertex_index entry) ! edge_index entry)"
    "int32 \<bar>lvalue (labels s ! vertex_index entry)\<bar> = \<bar>lvalue (labels s ! vertex_index entry)\<bar>"
    by (simp_all add: residual_def edge_def u_def)
  have discard: "residual \<le> 0 \<Longrightarrow> handle_out_edge entry s = Some (NO_LOCAL, s)"
    using r by (simp add: handle_out_edge_def Let_def residual_def edge_def u_def)
  have remote: "handle_out_edge entry s =
           Some (NO_LOCAL,
                 s\<lparr>my_color := (if rank_location edge < mpi_rank s then TOKEN_RED else my_color s),
                   sent := sent s @ [(rank_location edge, SET_TO_LABEL,
                            Msg \<lparr>senders_node = vid (vertices s ! u),
                                 receivers_node = dest_node_id edge,
                                 msg_value = proposed, msg_pass = pass s\<rparr>)]\<rparr>)"
    if "0 < residual" "rank_location edge \<noteq> mpi_rank s"
    using r that
    by (simp add: handle_out_edge_def Let_def MPI_Ssend_def residual_def edge_def u_def proposed_def)
  have taken: "handle_out_edge entry s = Some (NO_LOCAL, s)"
    if "0 < residual" "rank_location edge = mpi_rank s" "vert_index edge < length (labels s)"
      "lvalue (labels s ! vert_index edge) \<noteq> 0"
    using r that
    by (simp add: handle_out_edge_def Let_def set_label_set residual_def edge_def u_def)
  have free: "handle_out_edge entry s =
           (if vid (vertices s ! vert_index edge) = sink_id s then Some (vert_index edge, labelled)
            else map_option (Pair NO_LOCAL) (insert_edges (vert_index edge) labelled))"
    if "0 < residual" "rank_location edge = mpi_rank s" "vert_index edge < length (labels s)"
      "lvalue (labels s ! vert_index edge) = 0" "vert_index edge < length (vertices s)"
    using r that
    by (cases "insert_edges (vert_index edge) labelled")
      (simp_all add: handle_out_edge_def Let_def set_label_def residual_def edge_def u_def
        proposed_def labelled_def)
  have signal: "worker_process tid entry s =
              Some (vert_index edge,
                    (claim_step_3 tid (labelled\<lparr>queue_is_empty := False\<rparr>))
                      \<lparr>sent := sent s @ [(mpi_rank s, SINK_FOUND, No_data)],
                       sink_found := True\<rparr>)"
    if "0 < residual" "rank_location edge = mpi_rank s" "vert_index edge < length (labels s)"
      "lvalue (labels s ! vert_index edge) = 0" "vert_index edge < length (vertices s)"
      "vid (vertices s ! vert_index edge) = sink_id s" "vert_index edge \<noteq> NO_LOCAL"
      "\<not> sink_found s" "is_outgoing entry"
  proof -
    let ?s1 = "s\<lparr>working_threads := working_threads s + 1, queue_is_empty := False\<rparr>"
    have "handle_out_edge entry ?s1 =
            Some (vert_index edge, labelled\<lparr>working_threads := working_threads s + 1,
                                              queue_is_empty := False\<rparr>)"
      using r that
      by (simp add: handle_out_edge_def Let_def set_label_def residual_def edge_def u_def
          proposed_def labelled_def)
    then show ?thesis
      using that
      by (simp add: worker_process_def Let_def claim_step_3_def MPI_Ssend_def ERROR_def
          labelled_def)
  qed
  from discard remote taken free signal show ?thesis by blast
qed

theorem handle_out_edge_cases_witness:
  "(0 < length (vertices diamond_rank0_labelled)
    \<and> 1 < length (out_edges (vertices diamond_rank0_labelled ! 0))
    \<and> 0 < length (labels diamond_rank0_labelled))
   \<and> handle_out_edge \<lparr>vertex_index = 0, is_outgoing = True, edge_index = 0\<rparr> diamond_rank0_labelled =
       Some (NO_LOCAL, diamond_rank0_labelled
          \<lparr>labels := [\<lparr>lvalue = INT_MAX, prev_node = 0, prev_rank_loc = 0, prev_vert_index = 0\<rparr>,
                      \<lparr>lvalue = 3, prev_node = 0, prev_rank_loc = 0, prev_vert_index = 0\<rparr>],
           edge_queue := [\<lparr>vertex_index = 0, is_outgoing = True, edge_index = 0\<rparr>,
                          \<lparr>vertex_index = 0, is_outgoing = True, edge_index = 1\<rparr>,
                          \<lparr>vertex_index = 1, is_outgoing = True, edge_index = 0\<rparr>]\<rparr>)
   \<and> handle_out_edge \<lparr>vertex_index = 0, is_outgoing = True, edge_index = 1\<rparr> diamond_rank0_labelled =
       Some (NO_LOCAL, diamond_rank0_labelled
          \<lparr>sent := [(1, SET_TO_LABEL,
                      Msg \<lparr>senders_node = 0, receivers_node = 2, msg_value = 2, msg_pass = 1\<rparr>)]\<rparr>)
   \<and> worker_process 1 \<lparr>vertex_index = 0, is_outgoing = True, edge_index = 1\<rparr> (loop_graph_labelled 100) =
       Some (1, (loop_graph_labelled 100)
          \<lparr>labels := [\<lparr>lvalue = INT_MAX, prev_node = 0, prev_rank_loc = 0, prev_vert_index = 0\<rparr>,
                      \<lparr>lvalue = 3, prev_node = 0, prev_rank_loc = 0, prev_vert_index = 0\<rparr>],
           step_3_tid := 1, sent := [(0, SINK_FOUND, No_data)], sink_found := True\<rparr>)"
  (is "?r \<and> ?a \<and> ?b \<and> ?c")
proof -
  have r: ?r by (simp add: example_defs)
  have a: ?a
    using handle_out_edge_cases [where entry = "\<lparr>vertex_index = 0, is_outgoing = True, edge_index = 0\<rparr>"
        and s = diamond_rank0_labelled and tid = 1]
    by (simp add: model_defs example_defs)
  have b: ?b
    using handle_out_edge_cases [where entry = "\<lparr>vertex_index = 0, is_outgoing = True, edge_index = 1\<rparr>"
        and s = diamond_rank0_labelled and tid = 1]
    by (simp add: model_defs example_defs)
  have c: ?c
    using handle_out_edge_cases [where entry = "\<lparr>vertex_index = 0, is_outgoing = True, edge_index = 1\<rparr>"
        and s = "loop_graph_labelled 100" and tid = 1]
    by (simp add: model_defs example_defs claim_step_3_def)
  from r a b c show ?thesis by blast
qed

text \<open>
  Where the arithmetic leaves the range of an \<open>int\<close>, the model goes the way of the
  compiled program: \<open>2147483647 - (-1)\<close> is \<open>INT_MIN\<close>, and the entry is discarded; a
  flow of 1 with 2147483647 added is \<open>INT_MIN\<close>.
\<close>

lemma int32_wraps:
  "int32 (2147483647 - (- 1)) = INT_MIN" "int32 (2147483647 + 2147483647) = - 2"
  "int32 (- (- 2147483648)) = INT_MIN"
  by (simp_all add: int32_def INT_MIN_def)

lemma handle_out_edge_at_bound:
  "step_1 (bound_graph\<lparr>labels := [EMPTY_LABEL, EMPTY_LABEL], have_token := False,
                         edge_queue := []\<rparr>) = Some bound_graph"
  "handle_out_edge \<lparr>vertex_index = 0, is_outgoing = True, edge_index = 0\<rparr> bound_graph
     = Some (NO_LOCAL, bound_graph)"
  by (simp_all add: step_1_def handle_out_edge_def model_defs example_defs int32_def)

lemma add_flow_at_bound:
  "add_flow 1 2147483647 [mk_out 1 0 1 5 1, mk_out 2 0 2 5 1]
     = [mk_out 1 0 1 5 (- 2147483648), mk_out 2 0 2 5 1]"
  by (simp add: add_flow_def mk_out_def int32_def)

section \<open>A popped incoming edge\<close>

text \<open>The search loops that end in \<open>break\<close> read the flow of the first edge that matches.\<close>

lemma first_flow_first:
  assumes "j < length es" and "P (es ! j)" and "\<forall>i < j. \<not> P (es ! i)"
  shows "first_flow P dflt es = flow (es ! j)"
proof -
  from assms have "find P es = Some (es ! j)"
    by (auto simp: find_Some_iff)
  then show ?thesis by (simp add: first_flow_def)
qed

lemma first_flow_none:
  assumes "\<forall>e \<in> set es. \<not> P e"
  shows "first_flow P dflt es = dflt"
proof -
  from assms have "find P es = None" by (simp add: find_None_iff)
  then show ?thesis by (simp add: first_flow_def)
qed

lemma neg_min_int32:
  assumes "\<bar>a\<bar> \<le> INT_MAX" and "0 < f"
  shows "int32 (- min (int32 \<bar>a\<bar>) f) = - min \<bar>a\<bar> f"
proof -
  from assms(1) have a: "int32 \<bar>a\<bar> = \<bar>a\<bar>" by (simp add: INT_MAX_def int32_id)
  from assms have "- 2147483648 \<le> - min \<bar>a\<bar> f" "- min \<bar>a\<bar> f \<le> 2147483647"
    by (auto simp: INT_MAX_def min_def)
  then show ?thesis by (simp only: a int32_id)
qed

lemma edge_skipped_working [simp]:
  "edge_skipped (s\<lparr>working_threads := x\<rparr>) i e = edge_skipped s i e"
  by (simp add: edge_skipped_def came_from_def cong: if_cong)

lemma fragment_loop_working [simp]:
  "fragment_loop (s\<lparr>working_threads := x\<rparr>) i outgoing k es = fragment_loop s i outgoing k es"
  by (induction es arbitrary: k) simp_all

lemma insert_edges_working:
  "insert_edges i (s\<lparr>working_threads := x\<rparr>)
     = map_option (\<lambda>s'. s'\<lparr>working_threads := x\<rparr>) (insert_edges i s)"
  by (cases "fragment_loop s i True 0 (out_edges (vertices s ! i))";
      cases "fragment_loop s i False 0 (in_edges (vertices s ! i))")
     (simp_all add: insert_edges_def nth_opt_def)

lemma insert_edges_working_threads:
  "insert_edges i s = Some s' \<Longrightarrow> working_threads s' = working_threads s"
  by (auto simp: insert_edges_def split: bind_splits)

lemma split_rank0_mid_reached:
  "step_1 split_rank0 \<bind> worker_loop 3 1 = Some (NO_LOCAL, split_rank0_mid)"
  by (simp add: run_defs model_defs example_defs fuel)

text \<open>
  Claim C5. Let the popped entry name the incoming edge \<open>rev_edge\<close> of the local vertex
  \<open>v\<close>, coming from \<open>u\<close>, and let the absolute value of the label of \<open>v\<close> not overflow
  an \<open>int\<close>. If \<open>u\<close> is on this rank, the worker looks through the outgoing edges
  \<open>es\<close> of \<open>u\<close> for the first one that leads to \<open>v\<close>, the edge \<open>es ! j\<close>. The entry is
  discarded if there is no such edge, if the flow of \<open>es ! j\<close> is not positive, or if \<open>u\<close>
  has a label; otherwise \<open>u\<close> gets the label \<open>- min |label(v)| flow\<close> with \<open>v\<close> as
  predecessor, and its edges are put in the queue. If \<open>u\<close> is on another rank, the worker
  sends \<open>COMPUTE_FROM_LABEL\<close> with the label value of \<open>v\<close>. The rank \<open>r\<close> that receives
  such a message \<open>m\<close> of the current pass for its vertex \<open>w\<close> looks through the outgoing
  edges \<open>rs\<close> of \<open>w\<close> for the first one that leads to the sender's vertex, the edge
  \<open>rs ! k\<close>. It changes nothing if there is no such edge, if the flow of \<open>rs ! k\<close> is not
  positive, or if \<open>w\<close> has a label; otherwise \<open>w\<close> gets the label \<open>- min |value| flow\<close>
  with the sender's vertex as predecessor, and its edges are put in the queue.
\<close>

theorem handle_in_edge_cases:
  fixes entry :: edge_entry and s r :: rank_state and m :: message_data and j k :: nat
    and src :: int
  defines "v \<equiv> vertex_index entry"
  defines "rev_edge \<equiv> in_edges (vertices s ! v) ! edge_index entry"
  defines "u \<equiv> vert_index rev_edge"
  defines "es \<equiv> out_edges (vertices s ! u)"
  defines "labelled \<equiv> s\<lparr>labels := (labels s)[u :=
              \<lparr>lvalue = - min \<bar>lvalue (labels s ! v)\<bar> (flow (es ! j)),
               prev_node = vid (vertices s ! v),
               prev_rank_loc = mpi_rank s, prev_vert_index = v\<rparr>]\<rparr>"
  defines "w \<equiv> lookup_global_id r (receivers_node m)"
  defines "rs \<equiv> out_edges (vertices r ! w)"
  defines "rlabelled \<equiv> r\<lparr>labels := (labels r)[w :=
              \<lparr>lvalue = - min \<bar>msg_value m\<bar> (flow (rs ! k)), prev_node = senders_node m,
               prev_rank_loc = src, prev_vert_index = NO_LOCAL\<rparr>]\<rparr>"
  assumes "v < length (vertices s)" and "edge_index entry < length (in_edges (vertices s ! v))"
    and "v < length (labels s)"
    and no_overflow: "\<bar>lvalue (labels s ! v)\<bar> \<le> INT_MAX" "\<bar>msg_value m\<bar> \<le> INT_MAX"
  shows "(rank_location rev_edge = mpi_rank s \<and> u < length (vertices s)
          \<and> (\<forall>e \<in> set es. vert_index e \<noteq> v) \<longrightarrow>
           handle_in_edge entry s = Some (NO_LOCAL, s))
    \<and> (rank_location rev_edge = mpi_rank s \<and> u < length (vertices s)
         \<and> j < length es \<and> vert_index (es ! j) = v \<and> (\<forall>i < j. vert_index (es ! i) \<noteq> v) \<longrightarrow>
          (flow (es ! j) \<le> 0 \<longrightarrow> handle_in_edge entry s = Some (NO_LOCAL, s))
        \<and> (0 < flow (es ! j) \<and> u < length (labels s) \<and> lvalue (labels s ! u) \<noteq> 0 \<longrightarrow>
             handle_in_edge entry s = Some (NO_LOCAL, s))
        \<and> (0 < flow (es ! j) \<and> u < length (labels s) \<and> lvalue (labels s ! u) = 0 \<longrightarrow>
             handle_in_edge entry s =
               (if vid (vertices s ! u) = sink_id s
                then Some (u, ERROR ''outgoing edge from sink!'' labelled)
                else map_option (Pair NO_LOCAL) (insert_edges u labelled))))
    \<and> (rank_location rev_edge \<noteq> mpi_rank s \<longrightarrow>
           handle_in_edge entry s =
             Some (NO_LOCAL,
                   s\<lparr>my_color := (if rank_location rev_edge < mpi_rank s then TOKEN_RED
                                    else my_color s),
                     sent := sent s @ [(rank_location rev_edge, COMPUTE_FROM_LABEL,
                              Msg \<lparr>senders_node = vid (vertices s ! v),
                                   receivers_node = dest_node_id rev_edge,
                                   msg_value = lvalue (labels s ! v), msg_pass = pass s\<rparr>)]\<rparr>))
    \<and> (w \<noteq> NO_LOCAL \<and> msg_pass m = pass r \<and> w < length (vertices r) \<longrightarrow>
          ((\<forall>e \<in> set rs. dest_node_id e \<noteq> senders_node m) \<longrightarrow>
             router_step tid src COMPUTE_FROM_LABEL m others bt r = Some (Continue, bt, r))
        \<and> (k < length rs \<and> dest_node_id (rs ! k) = senders_node m
             \<and> (\<forall>i < k. dest_node_id (rs ! i) \<noteq> senders_node m) \<longrightarrow>
              (flow (rs ! k) \<le> 0 \<longrightarrow>
                 router_step tid src COMPUTE_FROM_LABEL m others bt r = Some (Continue, bt, r))
            \<and> (0 < flow (rs ! k) \<and> w < length (labels r) \<and> lvalue (labels r ! w) \<noteq> 0 \<longrightarrow>
                 router_step tid src COMPUTE_FROM_LABEL m others bt r = Some (Continue, bt, r))
            \<and> (0 < flow (rs ! k) \<and> w < length (labels r) \<and> lvalue (labels r ! w) = 0 \<longrightarrow>
                 router_step tid src COMPUTE_FROM_LABEL m others bt r =
                   (if vid (vertices r ! w) = sink_id r
                    then Some (Continue, w,
                               (claim_step_3 tid (ERROR ''outgoing edge from sink!'' rlabelled))
                                 \<lparr>sink_found := True\<rparr>)
                    else map_option (\<lambda>r'. (Continue, bt, r')) (insert_edges w rlabelled)))))"
proof -
  note rg = assms(9-11) [unfolded v_def]
  define curr_flow where "curr_flow = first_flow (\<lambda>e. vert_index e = v) (- 1) es"
  define remote_flow where
    "remote_flow = first_flow (\<lambda>e. dest_node_id e = senders_node m) 0 rs"
  have none: "curr_flow = - 1" if "\<forall>e \<in> set es. vert_index e \<noteq> v"
    unfolding curr_flow_def using that by (rule first_flow_none)
  have first: "curr_flow = flow (es ! j)"
    if "j < length es" "vert_index (es ! j) = v" "\<forall>i < j. vert_index (es ! i) \<noteq> v"
    unfolding curr_flow_def using that by (rule first_flow_first)
  have rnone: "remote_flow = 0" if "\<forall>e \<in> set rs. dest_node_id e \<noteq> senders_node m"
    unfolding remote_flow_def using that by (rule first_flow_none)
  have rfirst: "remote_flow = flow (rs ! k)"
    if "k < length rs" "dest_node_id (rs ! k) = senders_node m"
      "\<forall>i < k. dest_node_id (rs ! i) \<noteq> senders_node m"
    unfolding remote_flow_def using that by (rule first_flow_first)
  have discard: "handle_in_edge entry s = Some (NO_LOCAL, s)"
    if "rank_location rev_edge = mpi_rank s" "u < length (vertices s)" "curr_flow \<le> 0"
    using rg that
    by (simp add: handle_in_edge_def Let_def curr_flow_def es_def u_def rev_edge_def v_def)
  have taken: "handle_in_edge entry s = Some (NO_LOCAL, s)"
    if "rank_location rev_edge = mpi_rank s" "u < length (vertices s)" "0 < curr_flow"
      "u < length (labels s)" "lvalue (labels s ! u) \<noteq> 0"
    using rg that
    by (simp add: handle_in_edge_def Let_def set_label_set curr_flow_def es_def u_def rev_edge_def
        v_def)
  have free: "handle_in_edge entry s =
             (if vid (vertices s ! u) = sink_id s
              then Some (u, ERROR ''outgoing edge from sink!'' labelled)
              else map_option (Pair NO_LOCAL) (insert_edges u labelled))"
    if "rank_location rev_edge = mpi_rank s" "u < length (vertices s)" "0 < curr_flow"
      "u < length (labels s)" "lvalue (labels s ! u) = 0" "curr_flow = flow (es ! j)"
  proof -
    from that(3) no_overflow(1)
    have val: "int32 (- min (int32 \<bar>lvalue (labels s ! v)\<bar>) curr_flow)
                 = - min \<bar>lvalue (labels s ! v)\<bar> curr_flow"
      by (intro neg_min_int32)
    have "handle_in_edge entry s =
            set_label (vid (vertices s ! v)) (mpi_rank s) v u
              (- min \<bar>lvalue (labels s ! v)\<bar> curr_flow) s
            \<bind> (\<lambda>(found, s1). if found then Some (u, ERROR ''outgoing edge from sink!'' s1)
                                else Some (NO_LOCAL, s1))"
      using rg that(1-3) val
      by (simp add: handle_in_edge_def Let_def curr_flow_def es_def u_def rev_edge_def v_def
          cong: if_cong)
    also have "\<dots> = (if vid (vertices s ! u) = sink_id s
              then Some (u, ERROR ''outgoing edge from sink!'' labelled)
              else map_option (Pair NO_LOCAL) (insert_edges u labelled))"
      using that(2,4,5,6)
      by (cases "insert_edges u labelled")
        (simp_all add: set_label_def labelled_def)
    finally show ?thesis .
  qed
  have remote: "handle_in_edge entry s =
             Some (NO_LOCAL,
                   s\<lparr>my_color := (if rank_location rev_edge < mpi_rank s then TOKEN_RED
                                    else my_color s),
                     sent := sent s @ [(rank_location rev_edge, COMPUTE_FROM_LABEL,
                              Msg \<lparr>senders_node = vid (vertices s ! v),
                                   receivers_node = dest_node_id rev_edge,
                                   msg_value = lvalue (labels s ! v), msg_pass = pass s\<rparr>)]\<rparr>)"
    if "rank_location rev_edge \<noteq> mpi_rank s"
    using rg that
    by (simp add: handle_in_edge_def Let_def MPI_Ssend_def rev_edge_def v_def)
  have rdiscard: "router_step tid src COMPUTE_FROM_LABEL m others bt r = Some (Continue, bt, r)"
    if "w \<noteq> NO_LOCAL" "msg_pass m = pass r" "w < length (vertices r)" "remote_flow \<le> 0"
    using that
    by (simp add: router_step_def Let_def lookup_global_id_def w_def rs_def remote_flow_def)
  have rtaken: "router_step tid src COMPUTE_FROM_LABEL m others bt r = Some (Continue, bt, r)"
    if "w \<noteq> NO_LOCAL" "msg_pass m = pass r" "w < length (vertices r)" "0 < remote_flow"
      "w < length (labels r)" "lvalue (labels r ! w) \<noteq> 0"
    using that
    by (simp add: router_step_def Let_def lookup_global_id_def w_def rs_def remote_flow_def
        set_label_set)
  have rfree: "router_step tid src COMPUTE_FROM_LABEL m others bt r =
                   (if vid (vertices r ! w) = sink_id r
                    then Some (Continue, w,
                               (claim_step_3 tid (ERROR ''outgoing edge from sink!'' rlabelled))
                                 \<lparr>sink_found := True\<rparr>)
                    else map_option (\<lambda>r'. (Continue, bt, r')) (insert_edges w rlabelled))"
    if "w \<noteq> NO_LOCAL" "msg_pass m = pass r" "w < length (vertices r)" "0 < remote_flow"
      "w < length (labels r)" "lvalue (labels r ! w) = 0" "remote_flow = flow (rs ! k)"
  proof -
    let ?r0 = "r\<lparr>working_threads := working_threads r + 1\<rparr>"
    let ?lab0 = "rlabelled\<lparr>working_threads := working_threads r + 1\<rparr>"
    from that(4) no_overflow(2)
    have val: "int32 (- min (int32 \<bar>msg_value m\<bar>) remote_flow) = - min \<bar>msg_value m\<bar> remote_flow"
      by (intro neg_min_int32)
    have step: "router_step tid src COMPUTE_FROM_LABEL m others bt r =
            set_label (senders_node m) src NO_LOCAL w (- min \<bar>msg_value m\<bar> remote_flow) ?r0
            \<bind> (\<lambda>(found, s1).
                  if found then
                    Some (Continue, w,
                          sub_working ((claim_step_3 tid (ERROR ''outgoing edge from sink!'' s1))
                                         \<lparr>sink_found := True\<rparr>))
                  else Some (Continue, bt, sub_working s1))"
      using that(1-4) val
      by (simp add: router_step_def Let_def lookup_global_id_def w_def rs_def remote_flow_def
          cong: if_cong)
    have lab: "?r0\<lparr>labels := (labels ?r0)[w :=
              \<lparr>lvalue = - min \<bar>msg_value m\<bar> remote_flow, prev_node = senders_node m,
               prev_rank_loc = src, prev_vert_index = NO_LOCAL\<rparr>]\<rparr> = ?lab0"
      using that(7) by (simp add: rlabelled_def)
    show ?thesis
    proof (cases "vid (vertices r ! w) = sink_id r")
      case True
      with that(3,5,6) have "set_label (senders_node m) src NO_LOCAL w
              (- min \<bar>msg_value m\<bar> remote_flow) ?r0 = Some (True, ?lab0)"
        by (simp add: set_label_def lab [symmetric])
      with True show ?thesis
        by (simp add: step sub_working_def claim_step_3_def ERROR_def rlabelled_def)
    next
      case False
      with that(3,5,6) have sl: "set_label (senders_node m) src NO_LOCAL w
              (- min \<bar>msg_value m\<bar> remote_flow) ?r0
            = insert_edges w ?lab0 \<bind> (\<lambda>s2. Some (False, s2))"
        by (simp add: set_label_def lab [symmetric])
      show ?thesis
      proof (cases "insert_edges w rlabelled")
        case None
        with False show ?thesis by (simp add: step sl insert_edges_working)
      next
        case (Some r')
        from insert_edges_working_threads [OF Some]
        have "working_threads r' = working_threads r" by (simp add: rlabelled_def)
        then have "sub_working (r'\<lparr>working_threads := working_threads r + 1\<rparr>) = r'"
          by (simp add: sub_working_def)
        with False Some show ?thesis by (simp add: step sl insert_edges_working)
      qed
    qed
  qed
  show ?thesis
  proof (intro conjI impI; (elim conjE)?)
    assume "rank_location rev_edge = mpi_rank s" "u < length (vertices s)"
      "\<forall>e \<in> set es. vert_index e \<noteq> v"
    with none show "handle_in_edge entry s = Some (NO_LOCAL, s)" by (intro discard) simp_all
  next
    assume "rank_location rev_edge = mpi_rank s" "u < length (vertices s)"
      "j < length es" "vert_index (es ! j) = v" "\<forall>i < j. vert_index (es ! i) \<noteq> v"
      "flow (es ! j) \<le> 0"
    with first show "handle_in_edge entry s = Some (NO_LOCAL, s)" by (intro discard) simp_all
  next
    assume "rank_location rev_edge = mpi_rank s" "u < length (vertices s)"
      "j < length es" "vert_index (es ! j) = v" "\<forall>i < j. vert_index (es ! i) \<noteq> v"
      "0 < flow (es ! j)" "u < length (labels s)" "lvalue (labels s ! u) \<noteq> 0"
    with first show "handle_in_edge entry s = Some (NO_LOCAL, s)" by (intro taken) simp_all
  next
    assume "rank_location rev_edge = mpi_rank s" "u < length (vertices s)"
      "j < length es" "vert_index (es ! j) = v" "\<forall>i < j. vert_index (es ! i) \<noteq> v"
      "0 < flow (es ! j)" "u < length (labels s)" "lvalue (labels s ! u) = 0"
    with first show "handle_in_edge entry s =
               (if vid (vertices s ! u) = sink_id s
                then Some (u, ERROR ''outgoing edge from sink!'' labelled)
                else map_option (Pair NO_LOCAL) (insert_edges u labelled))"
      by (intro free) simp_all
  next
    assume "rank_location rev_edge \<noteq> mpi_rank s"
    then show "handle_in_edge entry s =
             Some (NO_LOCAL,
                   s\<lparr>my_color := (if rank_location rev_edge < mpi_rank s then TOKEN_RED
                                    else my_color s),
                     sent := sent s @ [(rank_location rev_edge, COMPUTE_FROM_LABEL,
                              Msg \<lparr>senders_node = vid (vertices s ! v),
                                   receivers_node = dest_node_id rev_edge,
                                   msg_value = lvalue (labels s ! v), msg_pass = pass s\<rparr>)]\<rparr>)"
      by (rule remote)
  next
    assume "w \<noteq> NO_LOCAL" "msg_pass m = pass r" "w < length (vertices r)"
      "\<forall>e \<in> set rs. dest_node_id e \<noteq> senders_node m"
    with rnone show "router_step tid src COMPUTE_FROM_LABEL m others bt r = Some (Continue, bt, r)"
      by (intro rdiscard) simp_all
  next
    assume "w \<noteq> NO_LOCAL" "msg_pass m = pass r" "w < length (vertices r)"
      "k < length rs" "dest_node_id (rs ! k) = senders_node m"
      "\<forall>i < k. dest_node_id (rs ! i) \<noteq> senders_node m" "flow (rs ! k) \<le> 0"
    with rfirst show "router_step tid src COMPUTE_FROM_LABEL m others bt r = Some (Continue, bt, r)"
      by (intro rdiscard) simp_all
  next
    assume "w \<noteq> NO_LOCAL" "msg_pass m = pass r" "w < length (vertices r)"
      "k < length rs" "dest_node_id (rs ! k) = senders_node m"
      "\<forall>i < k. dest_node_id (rs ! i) \<noteq> senders_node m" "0 < flow (rs ! k)"
      "w < length (labels r)" "lvalue (labels r ! w) \<noteq> 0"
    with rfirst show "router_step tid src COMPUTE_FROM_LABEL m others bt r = Some (Continue, bt, r)"
      by (intro rtaken) simp_all
  next
    assume "w \<noteq> NO_LOCAL" "msg_pass m = pass r" "w < length (vertices r)"
      "k < length rs" "dest_node_id (rs ! k) = senders_node m"
      "\<forall>i < k. dest_node_id (rs ! i) \<noteq> senders_node m" "0 < flow (rs ! k)"
      "w < length (labels r)" "lvalue (labels r ! w) = 0"
    with rfirst show "router_step tid src COMPUTE_FROM_LABEL m others bt r =
                   (if vid (vertices r ! w) = sink_id r
                    then Some (Continue, w,
                               (claim_step_3 tid (ERROR ''outgoing edge from sink!'' rlabelled))
                                 \<lparr>sink_found := True\<rparr>)
                    else map_option (\<lambda>r'. (Continue, bt, r')) (insert_edges w rlabelled))"
      by (intro rfree) simp_all
  qed
qed

theorem handle_in_edge_cases_witness:
  "(3 < length (vertices cancel_mid) \<and> 0 < length (in_edges (vertices cancel_mid ! 3))
    \<and> 3 < length (labels cancel_mid))
   \<and> handle_in_edge \<lparr>vertex_index = 3, is_outgoing = False, edge_index = 0\<rparr> cancel_mid =
       Some (NO_LOCAL, cancel_mid
          \<lparr>labels :=
             [\<lparr>lvalue = INT_MAX, prev_node = 0, prev_rank_loc = 0, prev_vert_index = 0\<rparr>,
              \<lparr>lvalue = - 1, prev_node = 3, prev_rank_loc = 0, prev_vert_index = 3\<rparr>,
              \<lparr>lvalue = 1, prev_node = 0, prev_rank_loc = 0, prev_vert_index = 0\<rparr>,
              \<lparr>lvalue = 1, prev_node = 2, prev_rank_loc = 0, prev_vert_index = 2\<rparr>,
              EMPTY_LABEL, EMPTY_LABEL],
           edge_queue := [\<lparr>vertex_index = 1, is_outgoing = True, edge_index = 1\<rparr>]\<rparr>)
   \<and> handle_in_edge \<lparr>vertex_index = 0, is_outgoing = False, edge_index = 0\<rparr>
         diamond_rank1_labelled =
       Some (NO_LOCAL, diamond_rank1_labelled
          \<lparr>my_color := TOKEN_RED,
           sent := [(0, COMPUTE_FROM_LABEL,
                      Msg \<lparr>senders_node = 2, receivers_node = 0, msg_value = 2, msg_pass = 1\<rparr>)]\<rparr>)
   \<and> router_step 0 1 COMPUTE_FROM_LABEL
         \<lparr>senders_node = 2, receivers_node = 0, msg_value = 2, msg_pass = 1\<rparr> 0 NO_LOCAL
         diamond_rank0_labelled =
       Some (Continue, NO_LOCAL, diamond_rank0_labelled)
   \<and> router_step 0 1 COMPUTE_FROM_LABEL
         \<lparr>senders_node = 3, receivers_node = 1, msg_value = 1, msg_pass = 2\<rparr> 0 NO_LOCAL
         split_rank0_mid =
       Some (Continue, NO_LOCAL, split_rank0_mid
          \<lparr>labels :=
             [\<lparr>lvalue = INT_MAX, prev_node = 0, prev_rank_loc = 0, prev_vert_index = 0\<rparr>,
              \<lparr>lvalue = - 1, prev_node = 3, prev_rank_loc = 1, prev_vert_index = NO_LOCAL\<rparr>,
              \<lparr>lvalue = 1, prev_node = 0, prev_rank_loc = 0, prev_vert_index = 0\<rparr>],
           edge_queue := [\<lparr>vertex_index = 1, is_outgoing = True, edge_index = 0\<rparr>]\<rparr>)"
  (is "?r \<and> ?a \<and> ?b \<and> ?c \<and> ?d")
proof -
  have r: ?r by (simp add: example_defs)
  have a: ?a
    using handle_in_edge_cases [where entry = "\<lparr>vertex_index = 3, is_outgoing = False, edge_index = 0\<rparr>"
        and s = cancel_mid and j = 0 and m = no_msg]
    by (simp add: model_defs example_defs no_msg_def)
  have b: ?b
    using handle_in_edge_cases [where entry = "\<lparr>vertex_index = 0, is_outgoing = False, edge_index = 0\<rparr>"
        and s = diamond_rank1_labelled and m = no_msg]
    by (simp add: model_defs example_defs no_msg_def)
  have c: ?c
    using handle_in_edge_cases [where entry = "\<lparr>vertex_index = 0, is_outgoing = False, edge_index = 0\<rparr>"
        and s = diamond_rank1_labelled and r = diamond_rank0_labelled
        and m = "\<lparr>senders_node = 2, receivers_node = 0, msg_value = 2, msg_pass = 1\<rparr>"
        and k = 1 and tid = 0 and src = 1 and others = 0 and bt = NO_LOCAL]
    by (simp add: model_defs example_defs)
  have d: ?d
    using handle_in_edge_cases [where entry = "\<lparr>vertex_index = 0, is_outgoing = False, edge_index = 0\<rparr>"
        and s = diamond_rank1_labelled and r = split_rank0_mid
        and m = "\<lparr>senders_node = 3, receivers_node = 1, msg_value = 1, msg_pass = 2\<rparr>"
        and k = 1 and tid = 0 and src = 1 and others = 0 and bt = NO_LOCAL]
    by (simp add: model_defs example_defs)
  from r a b c d show ?thesis by blast
qed

section \<open>The colour of a rank\<close>

lemma diamond_rank1_token_reached:
  "step_1 diamond_rank1 \<bind> router_step 0 0 TOKEN_WHITE no_msg 0 NO_LOCAL
   = Some (Continue, NO_LOCAL, diamond_rank1_token)"
  by (simp add: run_defs model_defs example_defs)

lemma handle_out_edge_sends:
  assumes run: "handle_out_edge entry s = Some (r, s')"
  shows "(sent s' = sent s \<and> my_color s' = my_color s)
          \<or> (\<exists>d m. d = rank_location (out_edges (vertices s ! vertex_index entry) ! edge_index entry)
                   \<and> vertex_index entry < length (vertices s)
                   \<and> edge_index entry < length (out_edges (vertices s ! vertex_index entry))
                   \<and> sent s' = sent s @ [(d, SET_TO_LABEL, Msg m)] \<and> d \<noteq> mpi_rank s
                   \<and> my_color s' = (if d < mpi_rank s then TOKEN_RED else my_color s))"
proof -
  let ?u = "vertex_index entry"
  let ?edge = "out_edges (vertices s ! ?u) ! edge_index entry"
  from run have rg: "?u < length (vertices s)"
    "edge_index entry < length (out_edges (vertices s ! ?u))"
    by (auto simp: handle_out_edge_def Let_def nth_opt_eq_Some split: bind_splits)
  show ?thesis
  proof (cases "int32 (capacity ?edge - flow ?edge) \<le> 0")
    case True
    with run rg have "s' = s" by (simp add: handle_out_edge_def Let_def)
    then show ?thesis by simp
  next
    case pos: False
    with run rg have lb: "?u < length (labels s)"
      by (auto simp: handle_out_edge_def Let_def nth_opt_eq_Some split: bind_splits)
    show ?thesis
    proof (cases "rank_location ?edge = mpi_rank s")
      case True
      with run rg pos lb obtain f where
        "set_label (vid (vertices s ! ?u)) (mpi_rank s) ?u (vert_index ?edge)
           (min (int32 \<bar>lvalue (labels s ! ?u)\<bar>) (int32 (capacity ?edge - flow ?edge))) s
           = Some (f, s')"
        by (auto simp: handle_out_edge_def Let_def split: bind_splits)
      from set_label_keeps(1,2) [OF this] show ?thesis by simp
    next
      case False
      with run rg pos lb have
        "s' = s\<lparr>my_color := (if rank_location ?edge < mpi_rank s then TOKEN_RED else my_color s),
               sent := sent s @ [(rank_location ?edge, SET_TO_LABEL,
                  Msg \<lparr>senders_node = vid (vertices s ! ?u), receivers_node = dest_node_id ?edge,
                       msg_value = min (int32 \<bar>lvalue (labels s ! ?u)\<bar>)
                                       (int32 (capacity ?edge - flow ?edge)),
                       msg_pass = pass s\<rparr>)]\<rparr>"
        by (auto simp: handle_out_edge_def Let_def MPI_Ssend_def split: if_splits)
      with False rg show ?thesis by auto
    qed
  qed
qed

lemma handle_in_edge_sends:
  assumes run: "handle_in_edge entry s = Some (r, s')"
  shows "(sent s' = sent s \<and> my_color s' = my_color s)
          \<or> (\<exists>d m. d = rank_location (in_edges (vertices s ! vertex_index entry) ! edge_index entry)
                   \<and> vertex_index entry < length (vertices s)
                   \<and> edge_index entry < length (in_edges (vertices s ! vertex_index entry))
                   \<and> sent s' = sent s @ [(d, COMPUTE_FROM_LABEL, Msg m)] \<and> d \<noteq> mpi_rank s
                   \<and> my_color s' = (if d < mpi_rank s then TOKEN_RED else my_color s))"
proof -
  let ?v = "vertex_index entry"
  let ?rev = "in_edges (vertices s ! ?v) ! edge_index entry"
  let ?u = "vert_index ?rev"
  let ?f = "first_flow (\<lambda>e. vert_index e = ?v) (- 1) (out_edges (vertices s ! ?u))"
  from run have rg: "?v < length (vertices s)"
    "edge_index entry < length (in_edges (vertices s ! ?v))"
    by (auto simp: handle_in_edge_def Let_def nth_opt_eq_Some split: bind_splits)
  show ?thesis
  proof (cases "rank_location ?rev = mpi_rank s")
    case loc: True
    with run rg have ur: "?u < length (vertices s)"
      by (auto simp: handle_in_edge_def Let_def nth_opt_eq_Some split: bind_splits)
    show ?thesis
    proof (cases "?f \<le> 0")
      case True
      with run rg loc ur have "s' = s" by (simp add: handle_in_edge_def Let_def)
      then show ?thesis by simp
    next
      case pos: False
      with run rg loc ur have lb: "?v < length (labels s)"
        by (auto simp: handle_in_edge_def Let_def nth_opt_eq_Some split: bind_splits)
      with run rg loc ur pos obtain f s1 where
        sl: "set_label (vid (vertices s ! ?v)) (mpi_rank s) ?v ?u
           (int32 (- min (int32 \<bar>lvalue (labels s ! ?v)\<bar>) ?f)) s = Some (f, s1)"
        and s': "s' = s1 \<or> s' = ERROR ''outgoing edge from sink!'' s1"
        by (auto simp: handle_in_edge_def Let_def split: bind_splits if_splits)
      from s' have "sent s' = sent s1" "my_color s' = my_color s1"
        by (auto simp: ERROR_def)
      with set_label_keeps(1,2) [OF sl] show ?thesis by simp
    qed
  next
    case False
    with run rg have lb: "?v < length (labels s)"
      by (auto simp: handle_in_edge_def Let_def nth_opt_eq_Some split: bind_splits)
    with run rg False have
      "s' = s\<lparr>my_color := (if rank_location ?rev < mpi_rank s then TOKEN_RED else my_color s),
             sent := sent s @ [(rank_location ?rev, COMPUTE_FROM_LABEL,
                Msg \<lparr>senders_node = vid (vertices s ! ?v), receivers_node = dest_node_id ?rev,
                     msg_value = lvalue (labels s ! ?v), msg_pass = pass s\<rparr>)]\<rparr>"
      by (auto simp: handle_in_edge_def Let_def MPI_Ssend_def split: if_splits)
    with False rg show ?thesis by auto
  qed
qed

text \<open>
  Claim C9 as stated fails: rank 1 of two ranks, holding the token with an empty queue,
  sends the token to rank 0, a lower rank, and is white after the send.
\<close>

theorem send_to_lower_rank_counterexample:
  "sent (worker_idle diamond_rank1_token) = [(0, TOKEN_WHITE, No_data)]
   \<and> 0 < mpi_rank diamond_rank1_token
   \<and> my_color (worker_idle diamond_rank1_token) \<noteq> TOKEN_RED"
  by (simp add: run_defs model_defs example_defs)

text \<open>
  Claim C9, amended. The colour is set by the two sends of step 2 that carry work: when
  \<open>handle_out_edge\<close> or \<open>handle_in_edge\<close> returns, either it has sent nothing and the
  colour is as before, or it has sent one \<open>SET_TO_LABEL\<close> (one \<open>COMPUTE_FROM_LABEL\<close>)
  message to another rank \<open>d\<close>, and the rank is red if \<open>d\<close> is lower and has its old colour
  otherwise. Passing the token on leaves the rank white, whatever the destination.
\<close>

theorem label_send_turns_red:
  assumes "(if is_outgoing entry then handle_out_edge entry s else handle_in_edge entry s)
             = Some (r, s')"
  shows "((sent s' = sent s \<and> my_color s' = my_color s)
          \<or> (\<exists>d m. sent s' = sent s @ [(d, if is_outgoing entry then SET_TO_LABEL
                                              else COMPUTE_FROM_LABEL, Msg m)]
                   \<and> d \<noteq> mpi_rank s
                   \<and> my_color s' = (if d < mpi_rank s then TOKEN_RED else my_color s)))
         \<and> my_color (worker_idle s) =
             (if have_token s \<and> working_threads s = 0 \<and> \<not> sink_found s then TOKEN_WHITE
              else my_color s)"
proof
  show "my_color (worker_idle s) =
             (if have_token s \<and> working_threads s = 0 \<and> \<not> sink_found s then TOKEN_WHITE
              else my_color s)"
    by (simp add: worker_idle_def Let_def MPI_Ssend_def)
next
  show "(sent s' = sent s \<and> my_color s' = my_color s)
          \<or> (\<exists>d m. sent s' = sent s @ [(d, if is_outgoing entry then SET_TO_LABEL
                                              else COMPUTE_FROM_LABEL, Msg m)]
                   \<and> d \<noteq> mpi_rank s
                   \<and> my_color s' = (if d < mpi_rank s then TOKEN_RED else my_color s))"
  proof (cases "is_outgoing entry")
    case True
    with assms have "handle_out_edge entry s = Some (r, s')" by simp
    from handle_out_edge_sends [OF this] True show ?thesis by auto
  next
    case False
    with assms have "handle_in_edge entry s = Some (r, s')" by simp
    from handle_in_edge_sends [OF this] False show ?thesis by auto
  qed
qed

theorem label_send_turns_red_witness:
  "handle_in_edge \<lparr>vertex_index = 0, is_outgoing = False, edge_index = 0\<rparr> diamond_rank1_labelled =
     Some (NO_LOCAL, diamond_rank1_labelled
          \<lparr>my_color := TOKEN_RED,
           sent := [(0, COMPUTE_FROM_LABEL,
                      Msg \<lparr>senders_node = 2, receivers_node = 0, msg_value = 2, msg_pass = 1\<rparr>)]\<rparr>)
   \<and> my_color (diamond_rank1_labelled
          \<lparr>my_color := TOKEN_RED,
           sent := [(0, COMPUTE_FROM_LABEL,
                      Msg \<lparr>senders_node = 2, receivers_node = 0, msg_value = 2, msg_pass = 1\<rparr>)]\<rparr>)
       = TOKEN_RED"
  (is "?run \<and> ?red")
proof -
  have run: ?run
    by (simp add: handle_in_edge_def model_defs example_defs)
  from label_send_turns_red [where entry = "\<lparr>vertex_index = 0, is_outgoing = False, edge_index = 0\<rparr>"
      and s = diamond_rank1_labelled and r = NO_LOCAL, OF _] run
  have ?red by simp
  with run show ?thesis by blast
qed

section \<open>Messages that are dropped\<close>

text \<open>
  Claim C8 as stated fails for \<open>UPDATE_FLOW\<close>: step 3 does not look at the pass of the
  message. Rank 0 of the diamond, in pass 1, adds the value of a message that names pass 7
  to the flow of its edge from 0 to 2.
\<close>

theorem stale_update_flow_counterexample:
  "msg_pass stale_update \<noteq> pass diamond_rank0_labelled
   \<and> bt_recv UPDATE_FLOW stale_update
         \<lparr>bt_idx = NO_LOCAL, sink_value = 0, wait_for_source_found = False,
          step_3_done = False\<rparr> diamond_rank0_labelled
       = Some (\<lparr>bt_idx = 0, sink_value = 2, wait_for_source_found = False,
                step_3_done = False\<rparr>,
               diamond_rank0_labelled
                 \<lparr>vertices :=
                    [\<lparr>vid = 0, out_edges = [mk_out 1 0 1 3 0, mk_out 2 1 NO_LOCAL 2 2],
                      in_edges = []\<rparr>,
                     \<lparr>vid = 1, out_edges = [mk_out 3 1 NO_LOCAL 2 0],
                      in_edges = [mk_in 0 0 0]\<rparr>]\<rparr>)"
  by (simp add: bt_recv_def run_defs model_defs example_defs)

text \<open>
  Claim C8, amended. In step 2 a \<open>SET_TO_LABEL\<close> or \<open>COMPUTE_FROM_LABEL\<close> message whose
  receiving vertex is not on this rank, or whose pass is not the current pass, is dropped:
  thread 0 goes on with its loop and no variable of the program has changed, so that no
  label, no flow and not \<open>working_threads\<close> has changed. The program as compiled from the
  file writes no diagnostic; only a program compiled with \<open>DEBUG_MODE\<close> writes one
  \<open>ERROR\<close> line. In step 3 a message with one of these two tags changes nothing at all.
\<close>

theorem label_message_dropped:
  assumes "tag = SET_TO_LABEL \<or> tag = COMPUTE_FROM_LABEL"
    and "lookup_global_id s (receivers_node msg) = NO_LOCAL \<or> msg_pass msg \<noteq> pass s"
  shows "(\<exists>diag s'. router_step tid src tag msg others bt s = Some (Continue, bt, s')
           \<and> s' = (if debug_mode s then s\<lparr>errors := errors s @ [diag]\<rparr> else s)
           \<and> labels s' = labels s \<and> vertices s' = vertices s
           \<and> working_threads s' = working_threads s)
         \<and> bt_recv tag msg b s = Some (b, s)"
proof
  from assms(1) show "bt_recv tag msg b s = Some (b, s)"
    by (auto simp: bt_recv_def)
next
  have e: "sub_working (ERROR diag (s\<lparr>working_threads := working_threads s + 1\<rparr>))
             = (if debug_mode s then s\<lparr>errors := errors s @ [diag]\<rparr> else s)" for diag
    by (simp add: sub_working_def ERROR_def)
  have k: "labels (if debug_mode s then s\<lparr>errors := errors s @ [diag]\<rparr> else s) = labels s"
    "vertices (if debug_mode s then s\<lparr>errors := errors s @ [diag]\<rparr> else s) = vertices s"
    "working_threads (if debug_mode s then s\<lparr>errors := errors s @ [diag]\<rparr> else s)
       = working_threads s" for diag
    by simp_all
  from assms(1) show "\<exists>diag s'. router_step tid src tag msg others bt s = Some (Continue, bt, s')
           \<and> s' = (if debug_mode s then s\<lparr>errors := errors s @ [diag]\<rparr> else s)
           \<and> labels s' = labels s \<and> vertices s' = vertices s
           \<and> working_threads s' = working_threads s"
  proof
    assume tag: "tag = SET_TO_LABEL"
    from assms(2) consider "lookup_global_id s (receivers_node msg) = NO_LOCAL"
      | "lookup_global_id s (receivers_node msg) \<noteq> NO_LOCAL" "msg_pass msg \<noteq> pass s"
      by blast
    then show ?thesis
    proof cases
      case 1
      then have "router_step tid src tag msg others bt s
          = Some (Continue, bt, sub_working (ERROR ''SET_TO_LABEL sent to wrong rank''
                                   (s\<lparr>working_threads := working_threads s + 1\<rparr>)))"
        by (simp add: tag router_step_def Let_def lookup_global_id_def)
      then show ?thesis unfolding e using k by blast
    next
      case 2
      then have "router_step tid src tag msg others bt s
          = Some (Continue, bt, sub_working (ERROR ''***** Got old message! *****''
                                   (s\<lparr>working_threads := working_threads s + 1\<rparr>)))"
        by (simp add: tag router_step_def Let_def lookup_global_id_def)
      then show ?thesis unfolding e using k by blast
    qed
  next
    assume tag: "tag = COMPUTE_FROM_LABEL"
    from assms(2) consider "lookup_global_id s (receivers_node msg) = NO_LOCAL"
      | "lookup_global_id s (receivers_node msg) \<noteq> NO_LOCAL" "msg_pass msg \<noteq> pass s"
      by blast
    then show ?thesis
    proof cases
      case 1
      then have "router_step tid src tag msg others bt s
          = Some (Continue, bt, sub_working (ERROR ''COMPUTE_FROM_LABEL sent to wrong rank''
                                   (s\<lparr>working_threads := working_threads s + 1\<rparr>)))"
        by (simp add: tag router_step_def Let_def lookup_global_id_def)
      then show ?thesis unfolding e using k by blast
    next
      case 2
      then have "router_step tid src tag msg others bt s
          = Some (Continue, bt, sub_working (ERROR ''***** Got old message! *****''
                                   (s\<lparr>working_threads := working_threads s + 1\<rparr>)))"
        by (simp add: tag router_step_def Let_def lookup_global_id_def)
      then show ?thesis unfolding e using k by blast
    qed
  qed
qed

theorem label_message_dropped_witness:
  "lookup_global_id diamond_rank0_labelled (receivers_node stale_update) \<noteq> NO_LOCAL
   \<and> msg_pass stale_update \<noteq> pass diamond_rank0_labelled
   \<and> router_step 0 1 COMPUTE_FROM_LABEL stale_update 0 NO_LOCAL diamond_rank0_labelled =
       Some (Continue, NO_LOCAL, diamond_rank0_labelled)
   \<and> lookup_global_id diamond_rank0_labelled 3 = NO_LOCAL
   \<and> router_step 0 1 SET_TO_LABEL
         \<lparr>senders_node = 2, receivers_node = 3, msg_value = 2, msg_pass = 1\<rparr> 0 NO_LOCAL
         diamond_rank0_labelled =
       Some (Continue, NO_LOCAL, diamond_rank0_labelled)
   \<and> router_step 0 1 SET_TO_LABEL
         \<lparr>senders_node = 2, receivers_node = 3, msg_value = 2, msg_pass = 1\<rparr> 0 NO_LOCAL
         (diamond_rank0_labelled\<lparr>debug_mode := True\<rparr>) =
       Some (Continue, NO_LOCAL,
             diamond_rank0_labelled\<lparr>errors := [''SET_TO_LABEL sent to wrong rank''],
                                     debug_mode := True\<rparr>)"
  (is "?h1 \<and> ?h2 \<and> ?a \<and> ?h3 \<and> ?b \<and> ?c")
proof -
  have h: ?h1 ?h2 ?h3 by (simp_all add: model_defs example_defs)
  have a: ?a
    using label_message_dropped [where tag = COMPUTE_FROM_LABEL and s = diamond_rank0_labelled
      and msg = stale_update and tid = 0 and src = 1 and others = 0 and bt = NO_LOCAL] h(2)
    by (simp add: run_defs model_defs example_defs)
  have b: ?b
    using label_message_dropped [where tag = SET_TO_LABEL and s = diamond_rank0_labelled
      and msg = "\<lparr>senders_node = 2, receivers_node = 3, msg_value = 2, msg_pass = 1\<rparr>"
      and tid = 0 and src = 1 and others = 0 and bt = NO_LOCAL] h(3)
    by (simp add: run_defs model_defs example_defs)
  have c: ?c
    using label_message_dropped [where tag = SET_TO_LABEL
      and s = "diamond_rank0_labelled\<lparr>debug_mode := True\<rparr>"
      and msg = "\<lparr>senders_node = 2, receivers_node = 3, msg_value = 2, msg_pass = 1\<rparr>"
      and tid = 0 and src = 1 and others = 0 and bt = NO_LOCAL] h(3)
    by (simp add: run_defs model_defs example_defs)
  from h a b c show ?thesis by blast
qed

section \<open>The token at rank 0 and the termination check\<close>

lemma loop_graph_pass1_reached: "single_rank_pass 3 (loop_graph c) = Some (loop_graph_pass1 c)"
  by (simp add: run_defs model_defs example_defs fuel)

lemma loop_graph_done_reached: "single_rank_run 3 3 (loop_graph 100) = Some (loop_graph_done 100)"
  by (simp add: run_defs model_defs example_defs fuel)


lemma fold_MPI_Ssend:
  "fold (\<lambda>i. MPI_Ssend (f i) tag d) xs s = s\<lparr>sent := sent s @ map (\<lambda>i. (f i, tag, d)) xs\<rparr>"
  by (induction xs arbitrary: s) (simp_all add: MPI_Ssend_def)

lemma empty_flag_sum: "sum_list (map empty_flag rs) = 0 \<longleftrightarrow> (\<forall>r \<in> set rs. queue_is_empty r)"
proof -
  have nn: "0 \<le> sum_list (map empty_flag xs)" for xs :: "rank_state list"
    by (induction xs) (simp_all add: empty_flag_def)
  show ?thesis
  proof (induction rs)
    case Nil
    then show ?case by simp
  next
    case (Cons r rs)
    have "empty_flag r + sum_list (map empty_flag rs) = 0
            \<longleftrightarrow> queue_is_empty r \<and> sum_list (map empty_flag rs) = 0"
      using nn [of rs] by (auto simp: empty_flag_def)
    with Cons show ?case by simp
  qed
qed

lemma router_step_token_rank0:
  assumes "mpi_rank s = 0"
  shows "router_step tid src TOKEN_WHITE msg others bt s =
           Some (if empty_flag s + others = 0 then Returned else Continue, bt,
                 if empty_flag s + others = 0
                 then s\<lparr>token_color := TOKEN_WHITE, algorithm_complete := True,
                        sent := sent s @ map (\<lambda>i. (int i, CHECK_TERMINATION, No_data))
                                           [1..<nat (mpi_size s)]\<rparr>
                 else s\<lparr>token_color := TOKEN_WHITE, have_token := True,
                        sent := sent s @ map (\<lambda>i. (int i, CHECK_TERMINATION, No_data))
                                           [1..<nat (mpi_size s)]\<rparr>)"
  using assms
  by (simp add: router_step_def receive_token_def Let_def fold_MPI_Ssend sub_working_def
      empty_flag_def)

lemma router_step_check:
  "router_step tid src CHECK_TERMINATION msg others bt s =
     Some (if empty_flag s + others = 0 then Returned else Continue, bt,
           if empty_flag s + others = 0 then s\<lparr>algorithm_complete := True\<rparr> else s)"
  by (simp add: router_step_def check_termination_def Let_def sub_working_def empty_flag_def)

lemma router_step_red_rank0:
  assumes "mpi_rank s = 0"
  shows "router_step tid src TOKEN_RED msg others bt s =
           Some (Continue, bt, s\<lparr>token_color := TOKEN_WHITE, have_token := True\<rparr>)"
  using assms by (simp add: router_step_def receive_token_def Let_def sub_working_def)

text \<open>Rank 0 never turns red as long as no edge names a negative rank: it is white when
  it passes the token on.\<close>

lemma rank0_stays_white:
  assumes "(if is_outgoing entry then handle_out_edge entry s else handle_in_edge entry s)
             = Some (r, s')"
    and "mpi_rank s = 0"
    and "\<forall>v \<in> set (vertices s). (\<forall>e \<in> set (out_edges v). 0 \<le> rank_location e)
                                 \<and> (\<forall>e \<in> set (in_edges v). 0 \<le> rank_location e)"
  shows "my_color s' = my_color s"
proof (cases "is_outgoing entry")
  case True
  with assms(1) have "handle_out_edge entry s = Some (r, s')" by simp
  from handle_out_edge_sends [OF this] show ?thesis
  proof
    assume "sent s' = sent s \<and> my_color s' = my_color s"
    then show ?thesis by simp
  next
    assume "\<exists>d m. d = rank_location (out_edges (vertices s ! vertex_index entry) ! edge_index entry)
                   \<and> vertex_index entry < length (vertices s)
                   \<and> edge_index entry < length (out_edges (vertices s ! vertex_index entry))
                   \<and> sent s' = sent s @ [(d, SET_TO_LABEL, Msg m)] \<and> d \<noteq> mpi_rank s
                   \<and> my_color s' = (if d < mpi_rank s then TOKEN_RED else my_color s)"
    then obtain d where d: "d = rank_location (out_edges (vertices s ! vertex_index entry) ! edge_index entry)"
      "vertex_index entry < length (vertices s)"
      "edge_index entry < length (out_edges (vertices s ! vertex_index entry))"
      "my_color s' = (if d < mpi_rank s then TOKEN_RED else my_color s)"
      by blast
    from d(2,3) assms(3) have "0 \<le> d" unfolding d(1) by (meson nth_mem)
    with d(4) assms(2) show ?thesis by simp
  qed
next
  case False
  with assms(1) have "handle_in_edge entry s = Some (r, s')" by simp
  from handle_in_edge_sends [OF this] show ?thesis
  proof
    assume "sent s' = sent s \<and> my_color s' = my_color s"
    then show ?thesis by simp
  next
    assume "\<exists>d m. d = rank_location (in_edges (vertices s ! vertex_index entry) ! edge_index entry)
                   \<and> vertex_index entry < length (vertices s)
                   \<and> edge_index entry < length (in_edges (vertices s ! vertex_index entry))
                   \<and> sent s' = sent s @ [(d, COMPUTE_FROM_LABEL, Msg m)] \<and> d \<noteq> mpi_rank s
                   \<and> my_color s' = (if d < mpi_rank s then TOKEN_RED else my_color s)"
    then obtain d where d: "d = rank_location (in_edges (vertices s ! vertex_index entry) ! edge_index entry)"
      "vertex_index entry < length (vertices s)"
      "edge_index entry < length (in_edges (vertices s ! vertex_index entry))"
      "my_color s' = (if d < mpi_rank s then TOKEN_RED else my_color s)"
      by blast
    from d(2,3) assms(3) have "0 \<le> d" unfolding d(1) by (meson nth_mem)
    with d(4) assms(2) show ?thesis by simp
  qed
qed

text \<open>
  Claim C7. Let \<open>rs\<close> be the ranks, \<open>rs ! i\<close> being rank \<open>i\<close>, at the moment rank 0 receives
  a white token. Rank 0 sends \<open>CHECK_TERMINATION\<close> to each of the ranks \<open>1, ..., P - 1\<close>,
  and every rank adds its flag (0 for \<open>queue_is_empty\<close>, 1 otherwise) to the all-reduce.
  On every rank the thread returns and \<open>algorithm_complete\<close> is set exactly when the sum
  is 0, that is when every rank has \<open>queue_is_empty\<close>; otherwise \<open>algorithm_complete\<close>
  stays as it was and the thread goes on. When rank 0 receives a red token, it sends
  nothing, takes the token with the colour white and goes on; being white itself, the
  next token it sends is \<open>TOKEN_WHITE\<close>, to rank \<open>1 mod P\<close>.
\<close>

theorem termination_check:
  assumes "rs \<noteq> []"
    and "\<forall>i < length rs. mpi_rank (rs ! i) = int i \<and> mpi_size (rs ! i) = int (length rs)"
  shows "(\<forall>i < length rs. \<exists>s'.
            termination_round rs ! i =
              Some (if sum_list (map empty_flag rs) = 0 then Returned else Continue, NO_LOCAL, s')
            \<and> algorithm_complete s' =
                (sum_list (map empty_flag rs) = 0 \<or> algorithm_complete (rs ! i))
            \<and> sent s' = sent (rs ! i) @
                (if i = 0 then map (\<lambda>j. (int j, CHECK_TERMINATION, No_data)) [1..<length rs]
                 else [])
            \<and> working_threads s' = working_threads (rs ! i))
       \<and> (sum_list (map empty_flag rs) = 0 \<longleftrightarrow> (\<forall>r \<in> set rs. queue_is_empty r))
       \<and> router_step tid src TOKEN_RED msg others bt (rs ! 0) =
            Some (Continue, bt, (rs ! 0)\<lparr>token_color := TOKEN_WHITE, have_token := True\<rparr>)
       \<and> (my_color (rs ! 0) = TOKEN_WHITE \<and> working_threads (rs ! 0) = 0
            \<and> \<not> sink_found (rs ! 0) \<longrightarrow>
           sent (worker_idle ((rs ! 0)\<lparr>token_color := TOKEN_WHITE, have_token := True\<rparr>)) =
             sent (rs ! 0) @ [(1 mod int (length rs), TOKEN_WHITE, No_data)])"
proof (intro conjI allI impI)
  fix i assume i: "i < length rs"
  let ?total = "sum_list (map empty_flag rs)"
  from assms(2) i have rk: "mpi_rank (rs ! i) = int i" and sz: "mpi_size (rs ! i) = int (length rs)"
    by auto
  have nth: "termination_round rs ! i =
      router_step 0 (if mpi_rank (rs ! i) = 0 then mpi_size (rs ! i) - 1 else 0)
        (if mpi_rank (rs ! i) = 0 then TOKEN_WHITE else CHECK_TERMINATION) no_msg
        (?total - empty_flag (rs ! i)) NO_LOCAL (rs ! i)"
    using i by (simp add: termination_round_def)
  show "\<exists>s'. termination_round rs ! i =
              Some (if ?total = 0 then Returned else Continue, NO_LOCAL, s')
            \<and> algorithm_complete s' = (?total = 0 \<or> algorithm_complete (rs ! i))
            \<and> sent s' = sent (rs ! i) @
                (if i = 0 then map (\<lambda>j. (int j, CHECK_TERMINATION, No_data)) [1..<length rs]
                 else [])
            \<and> working_threads s' = working_threads (rs ! i)"
  proof (cases "i = 0")
    case True
    with rk have z: "mpi_rank (rs ! i) = 0" by simp
    have "termination_round rs ! i =
        router_step 0 (mpi_size (rs ! i) - 1) TOKEN_WHITE no_msg
          (?total - empty_flag (rs ! i)) NO_LOCAL (rs ! i)"
      using nth z by simp
    also note router_step_token_rank0 [OF z]
    finally show ?thesis
      using True sz by (cases "?total = 0") simp_all
  next
    case False
    with rk have nz: "mpi_rank (rs ! i) \<noteq> 0" by simp
    have "termination_round rs ! i =
        router_step 0 0 CHECK_TERMINATION no_msg
          (?total - empty_flag (rs ! i)) NO_LOCAL (rs ! i)"
      using nth nz by simp
    also note router_step_check
    finally show ?thesis
      using False by (cases "?total = 0") simp_all
  qed
next
  show "sum_list (map empty_flag rs) = 0 \<longleftrightarrow> (\<forall>r \<in> set rs. queue_is_empty r)"
    by (rule empty_flag_sum)
next
  from assms have z: "mpi_rank (rs ! 0) = 0" and sz: "mpi_size (rs ! 0) = int (length rs)"
    by (cases rs; force)+
  show "router_step tid src TOKEN_RED msg others bt (rs ! 0) =
            Some (Continue, bt, (rs ! 0)\<lparr>token_color := TOKEN_WHITE, have_token := True\<rparr>)"
    by (rule router_step_red_rank0 [OF z])
  assume "my_color (rs ! 0) = TOKEN_WHITE \<and> working_threads (rs ! 0) = 0 \<and> \<not> sink_found (rs ! 0)"
  then show "sent (worker_idle ((rs ! 0)\<lparr>token_color := TOKEN_WHITE, have_token := True\<rparr>)) =
             sent (rs ! 0) @ [(1 mod int (length rs), TOKEN_WHITE, No_data)]"
    by (simp add: worker_idle_def Let_def MPI_Ssend_def z sz)
qed

theorem termination_check_witness:
  "([diamond_idle0, diamond_idle1] \<noteq> []
    \<and> mpi_rank ([diamond_idle0, diamond_idle1] ! 0) = 0
    \<and> mpi_rank ([diamond_idle0, diamond_idle1] ! 1) = 1
    \<and> mpi_size ([diamond_idle0, diamond_idle1] ! 0) = 2
    \<and> mpi_size ([diamond_idle0, diamond_idle1] ! 1) = 2)
   \<and> termination_round [diamond_idle0, diamond_idle1] =
       [Some (Returned, NO_LOCAL,
              diamond_idle0\<lparr>algorithm_complete := True,
                             sent := [(1, CHECK_TERMINATION, No_data)]\<rparr>),
        Some (Returned, NO_LOCAL, diamond_idle1\<lparr>algorithm_complete := True\<rparr>)]
   \<and> termination_round [diamond_rank0_labelled, diamond_idle1] =
       [Some (Continue, NO_LOCAL,
              diamond_rank0_labelled\<lparr>sent := [(1, CHECK_TERMINATION, No_data)]\<rparr>),
        Some (Continue, NO_LOCAL, diamond_idle1)]"
  (is "?h \<and> ?a \<and> ?b")
proof -
  have h: ?h by (simp add: example_defs)
  have h2: "\<forall>i < length [diamond_idle0, diamond_idle1].
              mpi_rank ([diamond_idle0, diamond_idle1] ! i) = int i
              \<and> mpi_size ([diamond_idle0, diamond_idle1] ! i)
                  = int (length [diamond_idle0, diamond_idle1])"
    by (simp add: example_defs less_Suc_eq)
  have a: ?a
    using termination_check [of "[diamond_idle0, diamond_idle1]", OF _ h2]
    by (simp add: termination_round_def run_defs model_defs example_defs Let_def
        fold_MPI_Ssend upt_conv_Cons)
  have h3: "\<forall>i < length [diamond_rank0_labelled, diamond_idle1].
              mpi_rank ([diamond_rank0_labelled, diamond_idle1] ! i) = int i
              \<and> mpi_size ([diamond_rank0_labelled, diamond_idle1] ! i)
                  = int (length [diamond_rank0_labelled, diamond_idle1])"
    by (simp add: example_defs less_Suc_eq)
  have b: ?b
    using termination_check [of "[diamond_rank0_labelled, diamond_idle1]", OF _ h3]
    by (simp add: termination_round_def run_defs model_defs example_defs Let_def
        fold_MPI_Ssend upt_conv_Cons)
  from h a b show ?thesis by blast
qed

section \<open>One step of the backtracking\<close>

lemma add_flow_nth:
  "j < length es \<Longrightarrow>
     add_flow dest d es ! j =
       (if dest_node_id (es ! j) = dest then (es ! j)\<lparr>flow := int32 (flow (es ! j) + d)\<rparr>
        else es ! j)"
  by (simp add: add_flow_def)

lemma length_add_flow [simp]: "length (add_flow dest d es) = length es"
  by (simp add: add_flow_def)

lemma update_add_flow:
  assumes "update_out_edges p (add_flow dest d) s = Some s1"
  shows "s1 = s\<lparr>vertices := vertices s1\<rparr>"
    and "length (vertices s1) = length (vertices s)"
    and "i < length (vertices s) \<Longrightarrow>
           vid (vertices s1 ! i) = vid (vertices s ! i)
           \<and> in_edges (vertices s1 ! i) = in_edges (vertices s ! i)
           \<and> length (out_edges (vertices s1 ! i)) = length (out_edges (vertices s ! i))"
    and "i < length (vertices s) \<Longrightarrow> j < length (out_edges (vertices s ! i)) \<Longrightarrow>
           out_edges (vertices s1 ! i) ! j =
             (if i = p \<and> dest_node_id (out_edges (vertices s ! i) ! j) = dest
              then (out_edges (vertices s ! i) ! j)
                     \<lparr>flow := int32 (flow (out_edges (vertices s ! i) ! j) + d)\<rparr>
              else out_edges (vertices s ! i) ! j)"
proof -
  from assms have p: "p < length (vertices s)"
    and s1: "s1 = s\<lparr>vertices := (vertices s)[p := (vertices s ! p)
                 \<lparr>out_edges := add_flow dest d (out_edges (vertices s ! p))\<rparr>]\<rparr>"
    by (auto simp: update_out_edges_def nth_opt_eq_Some split: bind_splits)
  show "s1 = s\<lparr>vertices := vertices s1\<rparr>" by (subst (2) s1, subst s1) simp
  show "length (vertices s1) = length (vertices s)" by (simp add: s1)
  show "vid (vertices s1 ! i) = vid (vertices s ! i)
           \<and> in_edges (vertices s1 ! i) = in_edges (vertices s ! i)
           \<and> length (out_edges (vertices s1 ! i)) = length (out_edges (vertices s ! i))"
    if "i < length (vertices s)"
    using that by (cases "i = p") (simp_all add: s1)
  show "out_edges (vertices s1 ! i) ! j =
             (if i = p \<and> dest_node_id (out_edges (vertices s ! i) ! j) = dest
              then (out_edges (vertices s ! i) ! j)
                     \<lparr>flow := int32 (flow (out_edges (vertices s ! i) ! j) + d)\<rparr>
              else out_edges (vertices s ! i) ! j)"
    if "i < length (vertices s)" "j < length (out_edges (vertices s ! i))"
    using that by (cases "i = p") (simp_all add: s1 add_flow_nth)
qed

text \<open>
  What one pass through the loop of step 3 at a local vertex does in the code as it
  stands. The increment \<open>sink_value\<close> and the labels stay, and nothing of the vertices
  changes but flows: with a positive label whose predecessor is on this rank, the loop
  goes over the outgoing edges of the predecessor and adds \<open>sink_value\<close> wherever the
  destination is the vertex \<open>bt_idx\<close>; otherwise, with a negative label, it goes over the
  outgoing edges of the vertex \<open>bt_idx\<close> and subtracts \<open>sink_value\<close> wherever the
  destination is \<open>prev_node\<close>. If the predecessor is on another rank, the step sends it
  \<open>UPDATE_FLOW\<close> with \<open>sink_value\<close>, and the rank that receives an \<open>UPDATE_FLOW\<close> goes
  on with the value of the message as its \<open>sink_value\<close>. Step 3 starts with the value of
  the label at which it starts.
\<close>

lemma bt_local_step:
  fixes b :: bt_state and s :: rank_state
  defines "l \<equiv> labels s ! bt_idx b"
  defines "delta \<equiv> \<lambda>i (e :: out_edge).
     if 0 < lvalue l \<and> prev_rank_loc l = mpi_rank s then
       (if i = prev_vert_index l \<and> dest_node_id e = vid (vertices s ! bt_idx b)
        then Some (sink_value b) else None)
     else if lvalue l < 0 then
       (if i = bt_idx b \<and> dest_node_id e = prev_node l then Some (- sink_value b) else None)
     else None"
  assumes run: "bt_local b s = Some (b', s')"
  shows "sink_value b' = sink_value b \<and> labels s' = labels s
     \<and> length (vertices s') = length (vertices s)
     \<and> (\<forall>i < length (vertices s).
           vid (vertices s' ! i) = vid (vertices s ! i)
           \<and> in_edges (vertices s' ! i) = in_edges (vertices s ! i)
           \<and> length (out_edges (vertices s' ! i)) = length (out_edges (vertices s ! i))
           \<and> (\<forall>j < length (out_edges (vertices s ! i)).
                 out_edges (vertices s' ! i) ! j =
                   (case delta i (out_edges (vertices s ! i) ! j) of
                      None \<Rightarrow> out_edges (vertices s ! i) ! j
                    | Some d \<Rightarrow> (out_edges (vertices s ! i) ! j)
                         \<lparr>flow := int32 (flow (out_edges (vertices s ! i) ! j) + d)\<rparr>)))
     \<and> (if prev_rank_loc l \<noteq> mpi_rank s
         then sent s' = sent s @ [(prev_rank_loc l, UPDATE_FLOW,
                  Msg \<lparr>senders_node = vid (vertices s ! bt_idx b), receivers_node = prev_node l,
                       msg_value = sink_value b, msg_pass = pass s\<rparr>)]
              \<and> bt_idx b' = NO_LOCAL
         else sent s' = sent s)"
proof -
  from run have lb: "bt_idx b < length (labels s)"
    by (auto simp: bt_local_def nth_opt_eq_Some split: bind_splits)
  let ?upd = "if 0 < lvalue l \<and> prev_rank_loc l = mpi_rank s then
                   do { bv \<leftarrow> nth_opt (vertices s) (bt_idx b);
                        update_out_edges (prev_vert_index l) (add_flow (vid bv) (sink_value b)) s }
                 else if lvalue l < 0 then
                   update_out_edges (bt_idx b) (add_flow (prev_node l) (- sink_value b)) s
                 else Some s"
  let ?rest = "\<lambda>s1. if prev_rank_loc l \<noteq> mpi_rank s1 then
            do { bv \<leftarrow> nth_opt (vertices s1) (bt_idx b);
                 Some (b\<lparr>bt_idx := NO_LOCAL\<rparr>,
                       MPI_Ssend (prev_rank_loc l) UPDATE_FLOW
                         (Msg \<lparr>senders_node = vid bv, receivers_node = prev_node l,
                               msg_value = sink_value b, msg_pass = pass s1\<rparr>) s1) }
          else if bt_idx b = prev_vert_index l \<and> prev_node l = source_id s1 then
            Some (b\<lparr>wait_for_source_found := (mpi_size s1 > 1), step_3_done := True\<rparr>, s1)
          else Some (b\<lparr>bt_idx := prev_vert_index l\<rparr>, s1)"
  let ?new = "\<lambda>i j. case delta i (out_edges (vertices s ! i) ! j) of
                      None \<Rightarrow> out_edges (vertices s ! i) ! j
                    | Some d \<Rightarrow> (out_edges (vertices s ! i) ! j)
                         \<lparr>flow := int32 (flow (out_edges (vertices s ! i) ! j) + d)\<rparr>"
  have eq: "bt_local b s = ?upd \<bind> ?rest"
    using lb by (simp only: bt_local_def Let_def l_def nth_opt_Some Option.bind.bind_lunit)
  from run [unfolded eq] obtain s1 where upd: "?upd = Some s1"
    and rest: "?rest s1 = Some (b', s')"
    by (auto simp: bind_eq_Some_conv)
  consider (fwd) "0 < lvalue l \<and> prev_rank_loc l = mpi_rank s"
    | (bwd) "\<not> (0 < lvalue l \<and> prev_rank_loc l = mpi_rank s)" "lvalue l < 0"
    | (none) "\<not> (0 < lvalue l \<and> prev_rank_loc l = mpi_rank s)" "\<not> lvalue l < 0"
    by blast
  then have all: "s1 = s\<lparr>vertices := vertices s1\<rparr> \<and> length (vertices s1) = length (vertices s)
      \<and> (\<forall>i < length (vertices s).
           (vid (vertices s1 ! i) = vid (vertices s ! i)
           \<and> in_edges (vertices s1 ! i) = in_edges (vertices s ! i)
           \<and> length (out_edges (vertices s1 ! i)) = length (out_edges (vertices s ! i)))
           \<and> (\<forall>j < length (out_edges (vertices s ! i)).
                out_edges (vertices s1 ! i) ! j = ?new i j))"
  proof cases
    case fwd
    with upd have bv: "bt_idx b < length (vertices s)"
      and u: "update_out_edges (prev_vert_index l)
                (add_flow (vid (vertices s ! bt_idx b)) (sink_value b)) s = Some s1"
      by (auto simp: nth_opt_eq_Some split: bind_splits)
    from update_add_flow [OF u] fwd show ?thesis
      by (auto simp: delta_def)
  next
    case bwd
    with upd have u: "update_out_edges (bt_idx b)
                (add_flow (prev_node l) (- sink_value b)) s = Some s1"
      by simp
    from update_add_flow [OF u] bwd show ?thesis
      by (auto simp: delta_def)
  next
    case none
    with upd have "s1 = s" by simp
    have "delta i e = None" for i e using none by (auto simp: delta_def)
    with \<open>s1 = s\<close> show ?thesis by simp
  qed
  then have frame: "s1 = s\<lparr>vertices := vertices s1\<rparr>"
    and len: "length (vertices s1) = length (vertices s)"
    and vert: "\<And>i. i < length (vertices s) \<Longrightarrow>
           vid (vertices s1 ! i) = vid (vertices s ! i)
           \<and> in_edges (vertices s1 ! i) = in_edges (vertices s ! i)
           \<and> length (out_edges (vertices s1 ! i)) = length (out_edges (vertices s ! i))"
    and edge: "\<And>i j. i < length (vertices s) \<Longrightarrow> j < length (out_edges (vertices s ! i)) \<Longrightarrow>
           out_edges (vertices s1 ! i) ! j = ?new i j"
    by blast+
  have keep: "mpi_rank s1 = mpi_rank s" "labels s1 = labels s" "sent s1 = sent s"
    "pass s1 = pass s"
    by (subst frame, simp)+
  have s': "vertices s' = vertices s1" "labels s' = labels s1" "sink_value b' = sink_value b"
    using rest by (auto simp: MPI_Ssend_def split: if_splits bind_splits)
  have snd: "if prev_rank_loc l \<noteq> mpi_rank s
         then sent s' = sent s @ [(prev_rank_loc l, UPDATE_FLOW,
                  Msg \<lparr>senders_node = vid (vertices s ! bt_idx b), receivers_node = prev_node l,
                       msg_value = sink_value b, msg_pass = pass s\<rparr>)]
              \<and> bt_idx b' = NO_LOCAL
         else sent s' = sent s"
  proof (cases "prev_rank_loc l \<noteq> mpi_rank s")
    case True
    with rest keep have bv: "bt_idx b < length (vertices s1)"
      by (auto simp: nth_opt_eq_Some split: bind_splits)
    with len vert have "vid (vertices s1 ! bt_idx b) = vid (vertices s ! bt_idx b)" by simp
    with True rest keep bv show ?thesis
      by (auto simp: MPI_Ssend_def)
  next
    case False
    with rest keep show ?thesis by (auto split: if_splits)
  qed
  from s' keep len vert edge snd show ?thesis
    by (intro conjI allI impI) simp_all
qed

lemma step_3_sink_value:
  "step_3_begin bt s = Some (b, s') \<Longrightarrow> bt \<noteq> NO_LOCAL \<Longrightarrow>
     bt < length (labels s) \<and> sink_value b = lvalue (labels s ! bt) \<and> bt_idx b = bt"
  "bt_recv UPDATE_FLOW m c t = Some (c', t') \<Longrightarrow> sink_value c' = msg_value m"
  by (auto simp: step_3_begin_def bt_recv_def Let_def nth_opt_eq_Some split: bind_splits if_splits)

text \<open>
  In the second pass on the rank with the seven edges the backtracking comes from the sink
  over vertex 4 to vertex 1, whose label is negative with predecessor 3: the step takes
  the unit of flow back from the edge from 1 to 3.
\<close>

lemma cancel_back_reached:
  "single_rank_pass 6 cancel_graph \<bind> step_1 \<bind> worker_loop 7 1
     \<bind> (\<lambda>(bt, s). router_step 0 0 SINK_FOUND no_msg 0 NO_LOCAL s)
     \<bind> (\<lambda>(ctl, bt, s). step_3_begin 5 s)
     \<bind> (\<lambda>(b, s). backtrack 2 b s)
   = Some (\<lparr>bt_idx = 1, sink_value = 1, wait_for_source_found = False, step_3_done = False\<rparr>,
           cancel_back)"
  by (simp add: run_defs model_defs example_defs fuel)

lemma bt_local_cancel:
  "bt_local \<lparr>bt_idx = 1, sink_value = 1, wait_for_source_found = False, step_3_done = False\<rparr>
     cancel_back =
     Some (\<lparr>bt_idx = 3, sink_value = 1, wait_for_source_found = False, step_3_done = False\<rparr>,
           cancel_back
             \<lparr>vertices :=
          [\<lparr>vid = 0, out_edges = [mk_out 1 0 1 1 1, mk_out 2 0 2 1 0], in_edges = []\<rparr>,
           \<lparr>vid = 1, out_edges = [mk_out 3 0 3 1 0, mk_out 4 0 4 1 1], in_edges = [mk_in 0 0 0]\<rparr>,
           \<lparr>vid = 2, out_edges = [mk_out 3 0 3 1 0], in_edges = [mk_in 0 0 0]\<rparr>,
           \<lparr>vid = 3, out_edges = [mk_out 5 0 5 1 1], in_edges = [mk_in 1 0 1, mk_in 2 0 2]\<rparr>,
           \<lparr>vid = 4, out_edges = [mk_out 5 0 5 1 1], in_edges = [mk_in 1 0 1]\<rparr>,
           \<lparr>vid = 5, out_edges = [], in_edges = [mk_in 3 0 3, mk_in 4 0 4]\<rparr>]\<rparr>)"
  by (simp add: run_defs model_defs example_defs)

text \<open>
  Claim C3. The input file \<open>2 2 / 1 5 1 3 /\<close> (two vertices, two edges from 0 to 1 of
  capacities 5 and 3), on one rank with one worker thread. In the first pass the worker
  labels the sink with 5 over the first edge, and step 3 starts at the sink with the
  increment 5, the value of the sink's label. The label of the sink names vertex 0 on
  this rank as predecessor, and the one step at the sink adds 5 to the flow of both edges
  from 0 to 1, not of one: the update loop compares the destination of every outgoing
  edge of vertex 0 and does not stop at the first that matches. The second edge then
  carries 5 on a capacity of 3; the second pass finds nothing, and the program prints
  \<open>Max flow: 10\<close> for a graph whose maximal flow is 8.
\<close>

theorem parallel_edges_both_updated:
  "step_1 parallel_graph \<bind> worker_loop 1 1
     \<bind> (\<lambda>(bt, s). router_step 0 0 SINK_FOUND no_msg 0 NO_LOCAL s)
     = Some (Continue, NO_LOCAL, parallel_graph_found)
   \<and> lvalue (labels parallel_graph_found ! 1) = 5
   \<and> prev_vert_index (labels parallel_graph_found ! 1) = 0
   \<and> map flow (out_edges (vertices parallel_graph_found ! 0)) = [0, 0]
   \<and> step_3_begin 1 parallel_graph_found =
       Some (\<lparr>bt_idx = 1, sink_value = 5, wait_for_source_found = False, step_3_done = False\<rparr>,
             parallel_graph_found)
   \<and> bt_local \<lparr>bt_idx = 1, sink_value = 5, wait_for_source_found = False, step_3_done = False\<rparr>
         parallel_graph_found =
       Some (\<lparr>bt_idx = 0, sink_value = 5, wait_for_source_found = False, step_3_done = False\<rparr>,
             parallel_graph_found
               \<lparr>vertices := [\<lparr>vid = 0, out_edges = [mk_out 1 0 1 5 5, mk_out 1 0 1 3 5],
                                in_edges = []\<rparr>,
                              \<lparr>vid = 1, out_edges = [],
                                in_edges = [mk_in 0 0 0, mk_in 0 0 0]\<rparr>]\<rparr>)
   \<and> single_rank_run 3 3 parallel_graph = Some parallel_graph_done
   \<and> algorithm_complete parallel_graph_done
   \<and> map capacity (out_edges (vertices parallel_graph_done ! 0)) = [5, 3]
   \<and> map flow (out_edges (vertices parallel_graph_done ! 0)) = [5, 5]
   \<and> finish_all [parallel_graph_done] = [Some ([''Max flow: 10''], parallel_graph_done)]"
proof -
  have a: "step_1 parallel_graph \<bind> worker_loop 1 1
     \<bind> (\<lambda>(bt, s). router_step 0 0 SINK_FOUND no_msg 0 NO_LOCAL s)
     = Some (Continue, NO_LOCAL, parallel_graph_found)"
    by (simp add: run_defs model_defs example_defs fuel)
  have b: "lvalue (labels parallel_graph_found ! 1) = 5"
    "prev_vert_index (labels parallel_graph_found ! 1) = 0"
    "map flow (out_edges (vertices parallel_graph_found ! 0)) = [0, 0]"
    "algorithm_complete parallel_graph_done"
    "map capacity (out_edges (vertices parallel_graph_done ! 0)) = [5, 3]"
    "map flow (out_edges (vertices parallel_graph_done ! 0)) = [5, 5]"
    by (simp_all add: model_defs example_defs)
  have c: "step_3_begin 1 parallel_graph_found =
       Some (\<lparr>bt_idx = 1, sink_value = 5, wait_for_source_found = False, step_3_done = False\<rparr>,
             parallel_graph_found)"
    by (simp add: run_defs model_defs example_defs)
  have d: "bt_local \<lparr>bt_idx = 1, sink_value = 5, wait_for_source_found = False, step_3_done = False\<rparr>
         parallel_graph_found =
       Some (\<lparr>bt_idx = 0, sink_value = 5, wait_for_source_found = False, step_3_done = False\<rparr>,
             parallel_graph_found
               \<lparr>vertices := [\<lparr>vid = 0, out_edges = [mk_out 1 0 1 5 5, mk_out 1 0 1 3 5],
                                in_edges = []\<rparr>,
                              \<lparr>vid = 1, out_edges = [],
                                in_edges = [mk_in 0 0 0, mk_in 0 0 0]\<rparr>]\<rparr>)"
    by (simp add: run_defs model_defs example_defs)
  have e: "single_rank_run 3 3 parallel_graph = Some parallel_graph_done"
    by (simp add: run_defs model_defs example_defs fuel)
  have f: "finish_all [parallel_graph_done] = [Some ([''Max flow: 10''], parallel_graph_done)]"
    by (simp add: finish_all_def finish_rank_def calc_max_flow_def source_flow_def main_output_def
        decimal_of_int_def decimal.simps digit_char_def model_defs example_defs)
  from a b c d e f show ?thesis by simp
qed


section \<open>The answer of calc_max_flow and the line printed by main\<close>










section \<open>Flow and capacity after a pass\<close>

text \<open>
  Claim C2. The input file \<open>2 2 / 0 1 1 3 /\<close> (two vertices, a loop at the source of
  capacity 1 and an edge from 0 to 1 of capacity 3), on one rank with one worker thread.
  All flows are 0 at the start. The first pass labels the sink with 3 over the edge from 0
  to 1; step 3 adds 3 to that edge and arrives at the source, whose label names the source
  itself as predecessor, so the same loop over the outgoing edges of vertex 0 adds 3 to
  the edge from 0 to 0 as well: after the pass its flow is 3 and its capacity 1. The second
  pass finds nothing, the program ends with these flows, and prints \<open>Max flow: 6\<close> for a
  graph whose maximal flow is 3.
\<close>

theorem capacity_exceeded:
  "map flow (out_edges (vertices (loop_graph 1) ! 0)) = [0, 0]
   \<and> single_rank_pass 3 (loop_graph 1) = Some (loop_graph_pass1 1)
   \<and> map capacity (out_edges (vertices (loop_graph_pass1 1) ! 0)) = [1, 3]
   \<and> map flow (out_edges (vertices (loop_graph_pass1 1) ! 0)) = [3, 3]
   \<and> single_rank_run 3 3 (loop_graph 1) = Some (loop_graph_done 1)
   \<and> algorithm_complete (loop_graph_done 1)
   \<and> map capacity (out_edges (vertices (loop_graph_done 1) ! 0)) = [1, 3]
   \<and> map flow (out_edges (vertices (loop_graph_done 1) ! 0)) = [3, 3]
   \<and> finish_all [loop_graph_done 1] = [Some ([''Max flow: 6''], loop_graph_done 1)]"
proof -
  have a: "single_rank_pass 3 (loop_graph 1) = Some (loop_graph_pass1 1)"
    by (simp add: run_defs model_defs example_defs fuel)
  have b: "single_rank_run 3 3 (loop_graph 1) = Some (loop_graph_done 1)"
    by (simp add: run_defs model_defs example_defs fuel)
  have c: "map flow (out_edges (vertices (loop_graph 1) ! 0)) = [0, 0]"
    "map capacity (out_edges (vertices (loop_graph_pass1 1) ! 0)) = [1, 3]"
    "map flow (out_edges (vertices (loop_graph_pass1 1) ! 0)) = [3, 3]"
    "algorithm_complete (loop_graph_done 1)"
    "map capacity (out_edges (vertices (loop_graph_done 1) ! 0)) = [1, 3]"
    "map flow (out_edges (vertices (loop_graph_done 1) ! 0)) = [3, 3]"
    by (simp_all add: model_defs example_defs)
  have d: "finish_all [loop_graph_done 1] = [Some ([''Max flow: 6''], loop_graph_done 1)]"
    by (simp add: finish_all_def finish_rank_def calc_max_flow_def source_flow_def main_output_def
        decimal_of_int_def decimal.simps digit_char_def model_defs example_defs)
  from a b c d show ?thesis by simp
qed

end
